theory Spec2Isabelle
  imports Complex_Main
begin

section \<open>Smart-money signal engine: data model\<close>

text \<open>
  The development embeds \<^verbatim>\<open>src/analysis/smart_money.py\<close>. Python floats are read as
  real numbers (no rounding error, no NaN), except in \<^verbatim>\<open>get_market_bias\<close>, whose arithmetic
  is rounded as binary64 arithmetic is; timestamps are a real number of seconds. A
  pandas data frame is the list of its rows together with two flags that say whether the
  columns \<^verbatim>\<open>datetime\<close> and \<^verbatim>\<open>volume\<close> are present (a frame may keep its time in the
  index, and the repository's own validator adds a volume column when there is none); the
  four price columns are always there. Reading a missing column raises \<^verbatim>\<open>KeyError\<close>,
  which is a value of the model, so that the handlers of the source are branches of it.
  The display-only fields of a signal (\<^verbatim>\<open>description\<close>, \<^verbatim>\<open>additional_data\<close>) are left
  out, and of the log only the entries written by \<^verbatim>\<open>analyze\<close> are kept.
\<close>

datatype py_exception = KeyError string | RuntimeError string

record candle =
  c_datetime :: real
  c_open :: real
  c_high :: real
  c_low :: real
  c_close :: real
  c_volume :: real

record dataframe =
  rows :: "candle list"
  has_datetime :: bool
  has_volume :: bool

record signal =
  signal_type :: string
  direction :: string
  price :: real
  timestamp :: real
  strength :: real
  timeframe :: string

datatype swing_type = SwingHigh | SwingLow

record swing_point =
  sw_type :: swing_type
  sw_price :: real
  sw_timestamp :: real
  sw_index :: nat

subsection \<open>Python and pandas primitives\<close>

text \<open>\<^verbatim>\<open>xs[a:b]\<close> for non-negative bounds.\<close>

definition slice :: "'a list \<Rightarrow> nat \<Rightarrow> nat \<Rightarrow> 'a list" where
  "slice xs a b = take (b - a) (drop a xs)"

text \<open>\<^verbatim>\<open>Series.max()\<close> and \<^verbatim>\<open>Series.min()\<close>; every caller passes a non-empty series.\<close>

fun list_max :: "real list \<Rightarrow> real" where
  "list_max [] = 0"
| "list_max [x] = x"
| "list_max (x # y # ys) = max x (list_max (y # ys))"

fun list_min :: "real list \<Rightarrow> real" where
  "list_min [] = 0"
| "list_min [x] = x"
| "list_min (x # y # ys) = min x (list_min (y # ys))"

definition mean :: "real list \<Rightarrow> real" where
  "mean xs = sum_list xs / real (length xs)"

text \<open>\<^verbatim>\<open>needle in text\<close> on strings.\<close>

fun str_contains :: "string \<Rightarrow> string \<Rightarrow> bool" where
  "str_contains needle [] = (needle = [])"
| "str_contains needle (c # cs) =
     (take (length needle) (c # cs) = needle \<or> str_contains needle cs)"

definition pip_value_of :: "string \<Rightarrow> real" where
  "pip_value_of pair = (if str_contains ''JPY'' pair then 1 / 100 else 1 / 10000)"

text \<open>\<^verbatim>\<open>candle['datetime']\<close> and \<^verbatim>\<open>df['datetime'].iloc[i]\<close>.\<close>

definition get_datetime :: "dataframe \<Rightarrow> candle \<Rightarrow> py_exception + real" where
  "get_datetime df c =
     (if has_datetime df then Inr (c_datetime c) else Inl (KeyError ''datetime''))"

text \<open>
  The detectors' scanning loops: \<^verbatim>\<open>for i in ...: try: <step> except Exception: continue\<close>.
  A step either raises, produces nothing, or appends one item.
\<close>

fun scan_loop :: "(nat \<Rightarrow> py_exception + 'a option) \<Rightarrow> nat list \<Rightarrow> 'a list \<Rightarrow> 'a list" where
  "scan_loop step [] acc = acc"
| "scan_loop step (i # is) acc =
     (case step i of
        Inl e \<Rightarrow> scan_loop step is acc
      | Inr None \<Rightarrow> scan_loop step is acc
      | Inr (Some s) \<Rightarrow> scan_loop step is (acc @ [s]))"

text \<open>\<^verbatim>\<open>list.sort(key=f, reverse=True)\<close>: stable, descending.\<close>

definition sort_desc :: "('a \<Rightarrow> real) \<Rightarrow> 'a list \<Rightarrow> 'a list" where
  "sort_desc f xs = rev (sort_key f (rev xs))"

section \<open>Swing points\<close>

definition swing_step :: "dataframe \<Rightarrow> nat \<Rightarrow> nat \<Rightarrow> py_exception + swing_point option" where
  "swing_step df window i =
     (let high_window = map c_high (slice (rows df) (i - window) (i + window + 1));
          low_window = map c_low (slice (rows df) (i - window) (i + window + 1));
          current_high = c_high (rows df ! i);
          current_low = c_low (rows df ! i)
      in if current_high = list_max high_window then
           (case get_datetime df (rows df ! i) of
              Inl e \<Rightarrow> Inl e
            | Inr t \<Rightarrow> Inr (Some \<lparr>sw_type = SwingHigh, sw_price = current_high,
                                  sw_timestamp = t, sw_index = i\<rparr>))
         else if current_low = list_min low_window then
           (case get_datetime df (rows df ! i) of
              Inl e \<Rightarrow> Inl e
            | Inr t \<Rightarrow> Inr (Some \<lparr>sw_type = SwingLow, sw_price = current_low,
                                  sw_timestamp = t, sw_index = i\<rparr>))
         else Inr None)"

definition identify_swing_points :: "dataframe \<Rightarrow> nat \<Rightarrow> swing_point list" where
  "identify_swing_points df window =
     scan_loop (swing_step df window) [window ..< length (rows df) - window] []"

section \<open>Greedy grouping by price\<close>

definition near_anchor :: "real \<Rightarrow> real \<Rightarrow> real \<Rightarrow> bool" where
  "near_anchor tol anchor other = (\<bar>anchor - other\<bar> \<le> anchor * tol)"

text \<open>
  The inner loop \<^verbatim>\<open>for j, other in enumerate(xs[i+1:], i+1)\<close>, whose text is the same in
  \<^verbatim>\<open>_find_equal_levels\<close> and \<^verbatim>\<open>get_confluence_signals\<close>: the state is the group under
  construction and the set of used indices.
\<close>

fun collect_near ::
  "('a \<Rightarrow> real) \<Rightarrow> real \<Rightarrow> 'a list \<Rightarrow> nat \<Rightarrow> nat list \<Rightarrow> 'a list \<times> nat set \<Rightarrow> 'a list \<times> nat set" where
  "collect_near pr tol xs i [] st = st"
| "collect_near pr tol xs i (j # js) (grp, used) =
     (if j \<in> used then collect_near pr tol xs i js (grp, used)
      else if near_anchor tol (pr (xs ! i)) (pr (xs ! j))
        then collect_near pr tol xs i js (grp @ [xs ! j], insert j used)
        else collect_near pr tol xs i js (grp, used))"

text \<open>
  The grouping in the words of the specification: the first point not yet used is the
  anchor, every later unused point within the anchor's tolerance joins it, and the pass
  goes on with the points that are left.
\<close>

function greedy_groups :: "('a \<Rightarrow> real) \<Rightarrow> real \<Rightarrow> 'a list \<Rightarrow> 'a list list" where
  "greedy_groups pr tol [] = []"
| "greedy_groups pr tol (x # xs) =
     (x # filter (\<lambda>y. near_anchor tol (pr x) (pr y)) xs)
       # greedy_groups pr tol (filter (\<lambda>y. \<not> near_anchor tol (pr x) (pr y)) xs)"
  by pat_completeness auto
termination
  by (relation "measure (\<lambda>(pr, tol, xs). length xs)") (auto simp: less_Suc_eq_le)

section \<open>Liquidity detector\<close>

record liquidity_analyzer =
  equal_level_tolerance :: real

definition LiquidityAnalyzer_init :: liquidity_analyzer where
  "LiquidityAnalyzer_init = \<lparr>equal_level_tolerance = 2 / 10000\<rparr>"

fun equal_levels_loop ::
  "real \<Rightarrow> swing_point list \<Rightarrow> nat list \<Rightarrow> swing_point list list \<times> nat set
     \<Rightarrow> swing_point list list \<times> nat set" where
  "equal_levels_loop tol pts [] st = st"
| "equal_levels_loop tol pts (i # is) (equal_groups, used) =
     (if i \<in> used then equal_levels_loop tol pts is (equal_groups, used)
      else
        (case collect_near sw_price tol pts i [i + 1 ..< length pts] ([pts ! i], insert i used) of
           (level_group, used') \<Rightarrow>
             if length level_group \<ge> 2
             then equal_levels_loop tol pts is
                    (equal_groups @ [sort_key sw_timestamp level_group], used')
             else equal_levels_loop tol pts is (equal_groups, used')))"

definition find_equal_levels :: "liquidity_analyzer \<Rightarrow> swing_point list \<Rightarrow> swing_point list list" where
  "find_equal_levels self swing_points =
     (if length swing_points < 2 then []
      else fst (equal_levels_loop (equal_level_tolerance self) swing_points
                  [0 ..< length swing_points] ([], {})))"

definition equal_level_signal :: "string \<Rightarrow> string \<Rightarrow> swing_point list \<Rightarrow> signal" where
  "equal_level_signal kind dir level_group =
     \<lparr>signal_type = kind, direction = dir,
      price = sw_price (hd level_group),
      timestamp = sw_timestamp (last level_group),
      strength = min 100 (real (length level_group) * 25),
      timeframe = ''current''\<rparr>"

definition identify_liquidity_zones :: "liquidity_analyzer \<Rightarrow> dataframe \<Rightarrow> string \<Rightarrow> signal list" where
  "identify_liquidity_zones self df pair =
     (if length (rows df) < 20 then []
      else
        (let swing_points = identify_swing_points df 5;
             highs = filter (\<lambda>s. sw_type s = SwingHigh) swing_points;
             lows = filter (\<lambda>s. sw_type s = SwingLow) swing_points;
             equal_highs = find_equal_levels self highs;
             equal_lows = find_equal_levels self lows
         in map (equal_level_signal ''Liquidity_EqualHighs'' ''bearish'')
                (filter (\<lambda>g. length g \<ge> 2) equal_highs)
            @ map (equal_level_signal ''Liquidity_EqualLows'' ''bullish'')
                (filter (\<lambda>g. length g \<ge> 2) equal_lows)))"

section \<open>Fair value gap detector\<close>

record fair_value_gap_analyzer =
  min_gap_pips :: real
  max_age_hours :: int

definition FairValueGapAnalyzer_init :: fair_value_gap_analyzer where
  "FairValueGapAnalyzer_init = \<lparr>min_gap_pips = 3, max_age_hours = 24\<rparr>"

definition is_bullish_impulse :: "candle \<Rightarrow> bool" where
  "is_bullish_impulse c =
     (let body_size = \<bar>c_close c - c_open c\<bar>;
          total_range = c_high c - c_low c;
          is_green = (c_close c > c_open c);
          has_significant_body = (if total_range > 0 then body_size > total_range * (6 / 10) else False)
      in is_green \<and> has_significant_body)"

definition is_bearish_impulse :: "candle \<Rightarrow> bool" where
  "is_bearish_impulse c =
     (let body_size = \<bar>c_open c - c_close c\<bar>;
          total_range = c_high c - c_low c;
          is_red = (c_close c < c_open c);
          has_significant_body = (if total_range > 0 then body_size > total_range * (6 / 10) else False)
      in is_red \<and> has_significant_body)"

text \<open>
  \<^verbatim>\<open>numpy.polyfit(arange(n), ys, 1)[0]\<close> is the least-squares slope and \<^verbatim>\<open>Series.std()\<close>
  the sample standard deviation (one degree of freedom removed). Both are taken in exact
  arithmetic. On closes that are all equal the exact deviation is zero, while the library
  can return a rounding residue just above zero; the trend factor is then the fallback 0.5
  here and a small positive number there. Only the range of the factor, between 0 and 1 in
  both cases, is used in what follows.
\<close>

definition polyfit_slope :: "real list \<Rightarrow> real" where
  "polyfit_slope ys =
     (let xs = map real [0 ..< length ys]; xbar = mean xs; ybar = mean ys
      in sum_list (map (\<lambda>(x, y). (x - xbar) * (y - ybar)) (zip xs ys))
           / sum_list (map (\<lambda>x. (x - xbar) ^ 2) xs))"

definition series_std :: "real list \<Rightarrow> real" where
  "series_std ys =
     sqrt (sum_list (map (\<lambda>y. (y - mean ys) ^ 2) ys) / (real (length ys) - 1))"

definition calculate_trend_strength :: "real list \<Rightarrow> real" where
  "calculate_trend_strength closes =
     (if length closes < 2 then 1 / 2
      else
        (let slope = polyfit_slope closes; price_std = series_std closes
         in if price_std > 0 then min 1 (\<bar>slope\<bar> / price_std / 2) else 1 / 2))"

text \<open>
  Factor 3 of both strength functions (the same text in \<^verbatim>\<open>_calculate_fvg_strength\<close> and
  \<^verbatim>\<open>_calculate_ob_strength\<close>): the \<^verbatim>\<open>else\<close> belongs to the outer test, so a mean volume
  that is not positive adds nothing.
\<close>

definition relative_volume_strength :: "dataframe \<Rightarrow> candle \<Rightarrow> candle list \<Rightarrow> real" where
  "relative_volume_strength df c context_data =
     (if has_volume df \<and> length context_data > 5 then
        (let avg_volume = mean (map c_volume context_data)
         in if avg_volume > 0 then min 25 (c_volume c / avg_volume * 10) else 0)
      else 15)"

text \<open>The other three factors of \<^verbatim>\<open>_calculate_fvg_strength\<close>, and their clamped sum.\<close>

definition fvg_gap_strength :: "real \<Rightarrow> real" where
  "fvg_gap_strength gap_pips = min 25 (gap_pips * 2)"

definition fvg_impulse_strength :: "candle \<Rightarrow> real" where
  "fvg_impulse_strength impulse_candle =
     (let body_size = \<bar>c_close impulse_candle - c_open impulse_candle\<bar>;
          total_range = c_high impulse_candle - c_low impulse_candle
      in if total_range > 0 then body_size / total_range * 25 else 0)"

definition fvg_context_strength :: "candle list \<Rightarrow> real" where
  "fvg_context_strength context_data =
     (if length context_data \<ge> 10
      then calculate_trend_strength
             (map c_close (drop (length context_data - 10) context_data)) * 25
      else 25 / 2)"

definition calculate_fvg_strength :: "dataframe \<Rightarrow> real \<Rightarrow> candle \<Rightarrow> candle list \<Rightarrow> real" where
  "calculate_fvg_strength df gap_pips impulse_candle context_data =
     min 100 (max 0 (fvg_gap_strength gap_pips + fvg_impulse_strength impulse_candle
                      + relative_volume_strength df impulse_candle context_data
                      + fvg_context_strength context_data))"

definition fvg_step ::
  "fair_value_gap_analyzer \<Rightarrow> dataframe \<Rightarrow> real \<Rightarrow> nat \<Rightarrow> py_exception + signal option" where
  "fvg_step self df pip_value i =
     (let candle_1 = rows df ! (i - 2);
          candle_2 = rows df ! (i - 1);
          candle_3 = rows df ! i
      in if c_low candle_1 > c_high candle_3 then
           (let gap_size = c_low candle_1 - c_high candle_3;
                gap_pips = gap_size / pip_value
            in if gap_pips \<ge> min_gap_pips self then
               if is_bullish_impulse candle_2 then
                 (let s = calculate_fvg_strength df gap_pips candle_2
                            (slice (rows df) (i - 10) (i + 1))
                  in case get_datetime df candle_3 of
                       Inl e \<Rightarrow> Inl e
                     | Inr t \<Rightarrow> Inr (Some \<lparr>signal_type = ''FVG_Bullish'', direction = ''bullish'',
                           price = (c_low candle_1 + c_high candle_3) / 2, timestamp = t,
                           strength = s, timeframe = ''current''\<rparr>))
               else Inr None
               else Inr None)
         else if c_high candle_1 < c_low candle_3 then
           (let gap_size = c_low candle_3 - c_high candle_1;
                gap_pips = gap_size / pip_value
            in if gap_pips \<ge> min_gap_pips self then
               if is_bearish_impulse candle_2 then
                 (let s = calculate_fvg_strength df gap_pips candle_2
                            (slice (rows df) (i - 10) (i + 1))
                  in case get_datetime df candle_3 of
                       Inl e \<Rightarrow> Inl e
                     | Inr t \<Rightarrow> Inr (Some \<lparr>signal_type = ''FVG_Bearish'', direction = ''bearish'',
                           price = (c_low candle_3 + c_high candle_1) / 2, timestamp = t,
                           strength = s, timeframe = ''current''\<rparr>))
               else Inr None
               else Inr None)
         else Inr None)"

definition fvg_scan :: "fair_value_gap_analyzer \<Rightarrow> dataframe \<Rightarrow> string \<Rightarrow> signal list" where
  "fvg_scan self df pair =
     scan_loop (fvg_step self df (pip_value_of pair)) [2 ..< length (rows df)] []"

definition age_hours :: "real \<Rightarrow> signal \<Rightarrow> real" where
  "age_hours current_time s = (current_time - timestamp s) / 3600"

definition identify_fvgs ::
  "fair_value_gap_analyzer \<Rightarrow> dataframe \<Rightarrow> string \<Rightarrow> py_exception + signal list" where
  "identify_fvgs self df pair =
     (if length (rows df) < 3 then Inr []
      else
        (let signals = fvg_scan self df pair
         in case get_datetime df (last (rows df)) of
              Inl e \<Rightarrow> Inl e
            | Inr current_time \<Rightarrow>
                Inr (filter (\<lambda>s. age_hours current_time s \<le> real_of_int (max_age_hours self))
                       signals)))"

section \<open>Order block detector\<close>

record order_block_analyzer =
  min_size_pips :: real
  confirmation_candles :: nat

definition OrderBlockAnalyzer_init :: order_block_analyzer where
  "OrderBlockAnalyzer_init = \<lparr>min_size_pips = 5, confirmation_candles = 2\<rparr>"

definition is_potential_bullish_ob ::
  "order_block_analyzer \<Rightarrow> candle \<Rightarrow> candle list \<Rightarrow> real \<Rightarrow> bool" where
  "is_potential_bullish_ob self c future_candles pip_value =
     (let is_bearish = (c_close c < c_open c)
      in if length future_candles = 0 then False
         else
           (let highest_after = list_max (map c_high future_candles);
                move_pips = (highest_after - c_high c) / pip_value
            in is_bearish \<and> move_pips \<ge> min_size_pips self))"

definition is_potential_bearish_ob ::
  "order_block_analyzer \<Rightarrow> candle \<Rightarrow> candle list \<Rightarrow> real \<Rightarrow> bool" where
  "is_potential_bearish_ob self c future_candles pip_value =
     (let is_bullish = (c_close c > c_open c)
      in if length future_candles = 0 then False
         else
           (let lowest_after = list_min (map c_low future_candles);
                move_pips = (c_low c - lowest_after) / pip_value
            in is_bullish \<and> move_pips \<ge> min_size_pips self))"

definition calculate_confirmation_move :: "candle list \<Rightarrow> string \<Rightarrow> real" where
  "calculate_confirmation_move future_candles dir =
     (if length future_candles = 0 then 0
      else if dir = ''bullish''
        then list_max (map c_high future_candles) - c_close (hd future_candles)
        else c_close (hd future_candles) - list_min (map c_low future_candles))"

definition calculate_ob_strength ::
  "dataframe \<Rightarrow> candle \<Rightarrow> candle list \<Rightarrow> candle list \<Rightarrow> string \<Rightarrow> real" where
  "calculate_ob_strength df ob_candle future_candles context_data dir =
     (let confirmation_move = calculate_confirmation_move future_candles dir;
          move_strength =
            (if confirmation_move > 0 then min 30 (confirmation_move * 10000) else 0);
          speed_strength =
            (if length future_candles > 0
             then min 25 (confirmation_move / real (length future_candles) * 50000) else 0);
          volume_strength = relative_volume_strength df ob_candle context_data;
          body_size = \<bar>c_close ob_candle - c_open ob_candle\<bar>;
          total_range = c_high ob_candle - c_low ob_candle;
          quality_strength = (if total_range > 0 then body_size / total_range * 20 else 10)
      in min 100 (max 0 (move_strength + speed_strength + volume_strength + quality_strength)))"

definition ob_step ::
  "order_block_analyzer \<Rightarrow> dataframe \<Rightarrow> real \<Rightarrow> nat \<Rightarrow> py_exception + signal option" where
  "ob_step self df pip_value i =
     (let current_candle = rows df ! i;
          future_candles = slice (rows df) (i + 1) (i + 1 + confirmation_candles self)
      in if is_potential_bullish_ob self current_candle future_candles pip_value then
           (let s = calculate_ob_strength df current_candle future_candles
                      (slice (rows df) (i - 10) (i + 10)) ''bullish''
            in case get_datetime df current_candle of
                 Inl e \<Rightarrow> Inl e
               | Inr t \<Rightarrow> Inr (Some \<lparr>signal_type = ''OB_Bullish'', direction = ''bullish'',
                     price = c_low current_candle, timestamp = t,
                     strength = s, timeframe = ''current''\<rparr>))
         else if is_potential_bearish_ob self current_candle future_candles pip_value then
           (let s = calculate_ob_strength df current_candle future_candles
                      (slice (rows df) (i - 10) (i + 10)) ''bearish''
            in case get_datetime df current_candle of
                 Inl e \<Rightarrow> Inl e
               | Inr t \<Rightarrow> Inr (Some \<lparr>signal_type = ''OB_Bearish'', direction = ''bearish'',
                     price = c_high current_candle, timestamp = t,
                     strength = s, timeframe = ''current''\<rparr>))
         else Inr None)"

definition identify_order_blocks ::
  "order_block_analyzer \<Rightarrow> dataframe \<Rightarrow> string \<Rightarrow> signal list" where
  "identify_order_blocks self df pair =
     (if length (rows df) < 10 then []
      else scan_loop (ob_step self df (pip_value_of pair))
             [5 ..< length (rows df) - confirmation_candles self] [])"

section \<open>Market structure detector\<close>

record market_structure_analyzer =
  lookback_period :: nat
  min_break_pips :: real

definition MarketStructureAnalyzer_init :: market_structure_analyzer where
  "MarketStructureAnalyzer_init = \<lparr>lookback_period = 20, min_break_pips = 2\<rparr>"

text \<open>\<^verbatim>\<open>all(xs[i] <= xs[i+1] for i in range(len(xs)-1))\<close>\<close>

definition non_decreasing :: "real list \<Rightarrow> bool" where
  "non_decreasing xs = list_all (\<lambda>i. xs ! i \<le> xs ! (i + 1)) [0 ..< length xs - 1]"

definition calculate_structure_strength :: "swing_point list \<Rightarrow> string \<Rightarrow> real" where
  "calculate_structure_strength swing_context structure_type =
     (if length swing_context < 2 then 50
      else
        (let trend_strength =
               (if structure_type = ''bullish_mss'' then
                  (let lows = map sw_price (filter (\<lambda>s. sw_type s = SwingLow) swing_context)
                   in if length lows \<ge> 2 then (if non_decreasing lows then 40 else 20) else 0)
                else if structure_type = ''bearish_mss'' then
                  (let highs = map sw_price (filter (\<lambda>s. sw_type s = SwingHigh) swing_context)
                   in if length highs \<ge> 2 then (if non_decreasing highs then 40 else 20) else 0)
                else 0);
             latest = last swing_context;
             previous = swing_context ! (length swing_context - 2);
             price_diff = \<bar>sw_price latest - sw_price previous\<bar>;
             avg_price = (sw_price latest + sw_price previous) / 2;
             magnitude_strength =
               (if avg_price > 0 then min 30 (price_diff / avg_price * 100 * 1000) else 0);
             time_consistency = (if length swing_context \<ge> 3 then 30 else 0)
         in min 100 (max 0 (trend_strength + magnitude_strength + time_consistency))))"

definition identify_change_of_character ::
  "market_structure_analyzer \<Rightarrow> swing_point list \<Rightarrow> real \<Rightarrow> signal option" where
  "identify_change_of_character self recent_swings pip_value =
     (if length recent_swings < 4 then None
      else
        (let lows = filter (\<lambda>s. sw_type s = SwingLow) recent_swings;
             highs = filter (\<lambda>s. sw_type s = SwingHigh) recent_swings;
             bullish =
               (if length lows \<ge> 2 \<and> length highs \<ge> 1 then
                  (let last_low = last lows;
                       prev_low = lows ! (length lows - 2);
                       last_high = last highs
                   in if sw_price last_low < sw_price prev_low
                         \<and> sw_index last_low > sw_index last_high
                         \<and> (sw_price last_high - sw_price prev_low) / pip_value
                              \<ge> min_break_pips self
                      then Some \<lparr>signal_type = ''ChoCh_Bullish'', direction = ''bullish'',
                             price = sw_price last_high, timestamp = sw_timestamp last_low,
                             strength = 70, timeframe = ''current''\<rparr>
                      else None)
                else None)
         in case bullish of
              Some s \<Rightarrow> Some s
            | None \<Rightarrow>
               (if length highs \<ge> 2 \<and> length lows \<ge> 1 then
                  (let last_high = last highs;
                       prev_high = highs ! (length highs - 2);
                       last_low = last lows
                   in if sw_price last_high > sw_price prev_high
                         \<and> sw_index last_high > sw_index last_low
                         \<and> (sw_price prev_high - sw_price last_low) / pip_value
                              \<ge> min_break_pips self
                      then Some \<lparr>signal_type = ''ChoCh_Bearish'', direction = ''bearish'',
                             price = sw_price last_low, timestamp = sw_timestamp last_high,
                             strength = 70, timeframe = ''current''\<rparr>
                      else None)
                else None)))"

text \<open>
  The market-structure-shift part of one pass of the loop over the swing points; the
  swing between \<^verbatim>\<open>current_swing\<close> and \<^verbatim>\<open>prev_prev_swing\<close> is bound in the source and
  never read.
\<close>

definition mss_signal ::
  "market_structure_analyzer \<Rightarrow> real \<Rightarrow> swing_point list \<Rightarrow> nat \<Rightarrow> signal option" where
  "mss_signal self pip_value swing_points i =
     (let current_swing = swing_points ! i;
          prev_prev_swing = swing_points ! (i - 2)
      in if sw_type current_swing = SwingHigh \<and> sw_type prev_prev_swing = SwingHigh
            \<and> sw_price current_swing > sw_price prev_prev_swing then
           (let break_size = (sw_price current_swing - sw_price prev_prev_swing) / pip_value
            in if break_size \<ge> min_break_pips self then
                 Some \<lparr>signal_type = ''MSS_Bullish'', direction = ''bullish'',
                   price = sw_price current_swing, timestamp = sw_timestamp current_swing,
                   strength = calculate_structure_strength
                                (slice swing_points (i - 3) (i + 1)) ''bullish_mss'',
                   timeframe = ''current''\<rparr>
               else None)
         else if sw_type current_swing = SwingLow \<and> sw_type prev_prev_swing = SwingLow
            \<and> sw_price current_swing < sw_price prev_prev_swing then
           (let break_size = (sw_price prev_prev_swing - sw_price current_swing) / pip_value
            in if break_size \<ge> min_break_pips self then
                 Some \<lparr>signal_type = ''MSS_Bearish'', direction = ''bearish'',
                   price = sw_price current_swing, timestamp = sw_timestamp current_swing,
                   strength = calculate_structure_strength
                                (slice swing_points (i - 3) (i + 1)) ''bearish_mss'',
                   timeframe = ''current''\<rparr>
               else None)
         else None)"

definition structure_step ::
  "market_structure_analyzer \<Rightarrow> real \<Rightarrow> swing_point list \<Rightarrow> nat \<Rightarrow> signal list" where
  "structure_step self pip_value swing_points i =
     (case mss_signal self pip_value swing_points i of None \<Rightarrow> [] | Some s \<Rightarrow> [s])
     @ (case identify_change_of_character self (slice swing_points (i - 4) (i + 1)) pip_value of
          None \<Rightarrow> [] | Some s \<Rightarrow> [s])"

text \<open>
  The loop over the swing points, from index 2; it runs once there are four of them. No
  statement of its body can raise on a list of swing points, so its handler is not modelled.
\<close>

definition structure_scan ::
  "market_structure_analyzer \<Rightarrow> real \<Rightarrow> swing_point list \<Rightarrow> signal list" where
  "structure_scan self pip_value swing_points =
     (if length swing_points < 4 then []
      else fold (\<lambda>i signals. signals @ structure_step self pip_value swing_points i)
             [2 ..< length swing_points] [])"

definition identify_structure_shifts ::
  "market_structure_analyzer \<Rightarrow> dataframe \<Rightarrow> string \<Rightarrow> signal list" where
  "identify_structure_shifts self df pair =
     (if length (rows df) < lookback_period self * 2 then []
      else structure_scan self (pip_value_of pair) (identify_swing_points df 5))"

section \<open>Aggregator\<close>

type_synonym detector = "dataframe \<Rightarrow> string \<Rightarrow> py_exception + signal list"

record smart_money_analyzer =
  fvg_analyzer :: detector
  ob_analyzer :: detector
  structure_analyzer :: detector
  liquidity_analyzer :: detector

text \<open>\<^verbatim>\<open>SmartMoneyAnalyzer.__init__\<close>: the four detectors with their default parameters.\<close>

definition SmartMoneyAnalyzer_init :: smart_money_analyzer where
  "SmartMoneyAnalyzer_init =
     \<lparr>fvg_analyzer = identify_fvgs FairValueGapAnalyzer_init,
      ob_analyzer = (\<lambda>df pair. Inr (identify_order_blocks OrderBlockAnalyzer_init df pair)),
      structure_analyzer =
        (\<lambda>df pair. Inr (identify_structure_shifts MarketStructureAnalyzer_init df pair)),
      liquidity_analyzer =
        (\<lambda>df pair. Inr (identify_liquidity_zones LiquidityAnalyzer_init df pair))\<rparr>"

record analysis_results =
  fair_value_gaps :: "signal list"
  order_blocks :: "signal list"
  market_structure :: "signal list"
  liquidity_zones :: "signal list"
  all_signals :: "signal list"

text \<open>The entries \<^verbatim>\<open>analyze\<close> writes to the log, in order.\<close>

datatype log_entry =
    InfoFairValueGaps | InfoOrderBlocks | InfoMarketStructure | InfoLiquidity
  | InfoComplete nat | ErrorLogged py_exception

definition empty_results :: analysis_results where
  "empty_results = \<lparr>fair_value_gaps = [], order_blocks = [], market_structure = [],
                     liquidity_zones = [], all_signals = []\<rparr>"

text \<open>
  \<^verbatim>\<open>analyze\<close>: one \<^verbatim>\<open>try\<close> block holds the four calls and the merge, so the first
  exception ends the block and the results filled so far are returned.
\<close>

definition analyze ::
  "smart_money_analyzer \<Rightarrow> dataframe \<Rightarrow> string \<Rightarrow> analysis_results \<times> log_entry list" where
  "analyze self df pair =
     (case fvg_analyzer self df pair of
        Inl e \<Rightarrow> (empty_results, [InfoFairValueGaps, ErrorLogged e])
      | Inr fvgs \<Rightarrow>
     (case ob_analyzer self df pair of
        Inl e \<Rightarrow> (empty_results\<lparr>fair_value_gaps := fvgs\<rparr>,
                  [InfoFairValueGaps, InfoOrderBlocks, ErrorLogged e])
      | Inr obs \<Rightarrow>
     (case structure_analyzer self df pair of
        Inl e \<Rightarrow> (empty_results\<lparr>fair_value_gaps := fvgs, order_blocks := obs\<rparr>,
                  [InfoFairValueGaps, InfoOrderBlocks, InfoMarketStructure, ErrorLogged e])
      | Inr mss \<Rightarrow>
     (case liquidity_analyzer self df pair of
        Inl e \<Rightarrow> (empty_results\<lparr>fair_value_gaps := fvgs, order_blocks := obs,
                     market_structure := mss\<rparr>,
                  [InfoFairValueGaps, InfoOrderBlocks, InfoMarketStructure, InfoLiquidity,
                   ErrorLogged e])
      | Inr lqs \<Rightarrow>
          (let all = sort_desc timestamp (fvgs @ obs @ mss @ lqs)
           in (\<lparr>fair_value_gaps = fvgs, order_blocks = obs, market_structure = mss,
                 liquidity_zones = lqs, all_signals = all\<rparr>,
               [InfoFairValueGaps, InfoOrderBlocks, InfoMarketStructure, InfoLiquidity,
                InfoComplete (length all)]))))))"

text \<open>
  \<^verbatim>\<open>get_market_bias\<close> compares a computed share with the threshold 60, and the rounding of
  the sums decides that comparison: strengths 70, 100, 100 against 60, 60, 60 give a
  computed share just above 60. Its arithmetic is therefore modelled as binary64
  arithmetic: every operation returns the exact result rounded to the nearest number with
  a significand of 53 bits, a tie going to the even one. The values met here are far from
  overflow and from the subnormal range, which are not modelled.
\<close>

definition round_half_even :: "real \<Rightarrow> int" where
  "round_half_even y =
     (let f = \<lfloor>y\<rfloor>; d = y - of_int f
      in if d < 1 / 2 then f else if d > 1 / 2 then f + 1 else if even f then f else f + 1)"

definition fl :: "real \<Rightarrow> real" where
  "fl x =
     (if x = 0 then 0
      else (let ulp = 2 powr (of_int \<lfloor>log 2 \<bar>x\<bar>\<rfloor> - 52)
            in of_int (round_half_even (x / ulp)) * ulp))"

definition fadd :: "real \<Rightarrow> real \<Rightarrow> real" where
  "fadd x y = fl (x + y)"

definition fmul :: "real \<Rightarrow> real \<Rightarrow> real" where
  "fmul x y = fl (x * y)"

definition fdiv :: "real \<Rightarrow> real \<Rightarrow> real" where
  "fdiv x y = fl (x / y)"

text \<open>
  \<^verbatim>\<open>round(x, 1)\<close> on a float: the exact value of \<open>x\<close> rounded to the nearest tenth, a tie
  to the even one, and that decimal rounded to the nearest float.
\<close>

definition py_round1 :: "real \<Rightarrow> real" where
  "py_round1 x = fl (of_int (round_half_even (x * 10)) / 10)"

record market_bias =
  bias :: string
  confidence :: real

definition bias_scores :: "signal list \<Rightarrow> real \<times> real" where
  "bias_scores sigs =
     fold (\<lambda>s (bullish_score, bearish_score).
             (let weight = fdiv (strength s) 100
              in if direction s = ''bullish'' then (fadd bullish_score weight, bearish_score)
                 else if direction s = ''bearish'' then (bullish_score, fadd bearish_score weight)
                 else (bullish_score, bearish_score)))
       sigs (0, 0)"

definition get_market_bias :: "signal list \<Rightarrow> market_bias" where
  "get_market_bias sigs =
     (if sigs = [] then \<lparr>bias = ''NEUTRAL'', confidence = 0\<rparr>
      else
        (case bias_scores sigs of
           (bullish_score, bearish_score) \<Rightarrow>
             (let total_score = fadd bullish_score bearish_score
              in if total_score = 0 then \<lparr>bias = ''NEUTRAL'', confidence = 0\<rparr>
                 else
                   (let bullish_percentage = fmul (fdiv bullish_score total_score) 100;
                        bearish_percentage = fmul (fdiv bearish_score total_score) 100
                    in if bullish_percentage > 60
                       then \<lparr>bias = ''BULLISH'', confidence = py_round1 bullish_percentage\<rparr>
                       else if bearish_percentage > 60
                       then \<lparr>bias = ''BEARISH'', confidence = py_round1 bearish_percentage\<rparr>
                       else \<lparr>bias = ''NEUTRAL'', confidence = py_round1 50\<rparr>))))"

definition filter_signals_by_strength :: "signal list \<Rightarrow> real \<Rightarrow> signal list" where
  "filter_signals_by_strength sigs min_strength = filter (\<lambda>s. strength s \<ge> min_strength) sigs"

record confluence =
  cf_signals :: "signal list"
  avg_price :: real
  combined_strength :: real
  dominant_direction :: string
  signal_count :: nat
  signal_types :: "string set"

definition make_confluence :: "signal list \<Rightarrow> confluence" where
  "make_confluence confluent_signals =
     (let combined = sum_list (map strength confluent_signals) / real (length confluent_signals);
          bullish_count = length (filter (\<lambda>s. direction s = ''bullish'') confluent_signals);
          bearish_count = length (filter (\<lambda>s. direction s = ''bearish'') confluent_signals)
      in \<lparr>cf_signals = confluent_signals,
          avg_price = sum_list (map price confluent_signals) / real (length confluent_signals),
          combined_strength = min 100 (combined * (12 / 10)),
          dominant_direction = (if bullish_count > bearish_count then ''bullish'' else ''bearish''),
          signal_count = length confluent_signals,
          signal_types = set (map signal_type confluent_signals)\<rparr>)"

fun confluence_loop ::
  "real \<Rightarrow> signal list \<Rightarrow> nat list \<Rightarrow> confluence list \<times> nat set \<Rightarrow> confluence list \<times> nat set" where
  "confluence_loop tol sigs [] st = st"
| "confluence_loop tol sigs (i # is) (confluences, used) =
     (if i \<in> used then confluence_loop tol sigs is (confluences, used)
      else
        (case collect_near price tol sigs i [i + 1 ..< length sigs] ([sigs ! i], insert i used) of
           (confluent_signals, used') \<Rightarrow>
             if length confluent_signals \<ge> 2
             then confluence_loop tol sigs is
                    (confluences @ [make_confluence confluent_signals], used')
             else confluence_loop tol sigs is (confluences, used')))"

definition get_confluence_signals :: "signal list \<Rightarrow> real \<Rightarrow> confluence list" where
  "get_confluence_signals sigs price_tolerance =
     sort_desc combined_strength
       (fst (confluence_loop price_tolerance sigs [0 ..< length sigs] ([], {})))"

section \<open>Auxiliary notions and concrete inputs\<close>

text \<open>The items of \<open>xs\<close> at the positions \<open>js\<close> that are not yet used.\<close>

definition unused :: "'a list \<Rightarrow> nat list \<Rightarrow> nat set \<Rightarrow> 'a list" where
  "unused xs js used = map (\<lambda>j. xs ! j) (filter (\<lambda>j. j \<notin> used) js)"

definition mk_candle :: "real \<Rightarrow> real \<Rightarrow> real \<Rightarrow> real \<Rightarrow> real \<Rightarrow> real \<Rightarrow> candle" where
  "mk_candle t o' h l c v =
     \<lparr>c_datetime = t, c_open = o', c_high = h, c_low = l, c_close = c, c_volume = v\<rparr>"

definition four_highs :: "swing_point list" where
  "four_highs =
     [\<lparr>sw_type = SwingHigh, sw_price = 11000 / 10000, sw_timestamp = 0, sw_index = 5\<rparr>,
      \<lparr>sw_type = SwingHigh, sw_price = 11001 / 10000, sw_timestamp = 3600, sw_index = 11\<rparr>,
      \<lparr>sw_type = SwingHigh, sw_price = 11050 / 10000, sw_timestamp = 7200, sw_index = 17\<rparr>,
      \<lparr>sw_type = SwingHigh, sw_price = 11051 / 10000, sw_timestamp = 10800, sw_index = 23\<rparr>]"

text \<open>
  Six hourly candles with no traded volume; candles 3 to 5 form the gap of the
  specification's example (low 1.1000 above high 1.0950, a full-bodied rising candle between).
\<close>

definition frame6 :: dataframe where
  "frame6 =
     \<lparr>rows =
        [mk_candle 0 (11000 / 10000) (11010 / 10000) (10990 / 10000) (11005 / 10000) 0,
         mk_candle 3600 (11005 / 10000) (11010 / 10000) (10990 / 10000) (11000 / 10000) 0,
         mk_candle 7200 (11000 / 10000) (11010 / 10000) (10990 / 10000) (11005 / 10000) 0,
         mk_candle 10800 (11005 / 10000) (11010 / 10000) (11000 / 10000) (11008 / 10000) 0,
         mk_candle 14400 (10960 / 10000) (10990 / 10000) (10960 / 10000) (10990 / 10000) 0,
         mk_candle 18000 (10945 / 10000) (10950 / 10000) (10940 / 10000) (10948 / 10000) 0],
      has_datetime = True, has_volume = True\<rparr>"

text \<open>
  Seven candles with two gaps: one that ends at candle 2, two hours after the start, and
  one that ends at the last candle, more than a day later.
\<close>

definition frame7 :: dataframe where
  "frame7 =
     \<lparr>rows =
        [mk_candle 0 (11005 / 10000) (11010 / 10000) (11000 / 10000) (11008 / 10000) 1000,
         mk_candle 3600 (10960 / 10000) (10990 / 10000) (10960 / 10000) (10990 / 10000) 1000,
         mk_candle 7200 (10945 / 10000) (10950 / 10000) (10940 / 10000) (10948 / 10000) 1000,
         mk_candle 100000 (10965 / 10000) (10995 / 10000) (10935 / 10000) (10975 / 10000) 1000,
         mk_candle 103600 (10952 / 10000) (10955 / 10000) (10950 / 10000) (10953 / 10000) 1000,
         mk_candle 107200 (10910 / 10000) (10940 / 10000) (10910 / 10000) (10940 / 10000) 1000,
         mk_candle 110800 (10895 / 10000) (10900 / 10000) (10890 / 10000) (10898 / 10000) 1000],
      has_datetime = True, has_volume = True\<rparr>"

definition frame7_old :: signal where
  "frame7_old = \<lparr>signal_type = ''FVG_Bullish'', direction = ''bullish'', price = 10975 / 10000,
                  timestamp = 7200, strength = 775 / 10, timeframe = ''current''\<rparr>"

definition frame7_fresh :: signal where
  "frame7_fresh = \<lparr>signal_type = ''FVG_Bullish'', direction = ''bullish'', price = 10925 / 10000,
                    timestamp = 110800, strength = 725 / 10, timeframe = ''current''\<rparr>"

text \<open>
  The weight \<^verbatim>\<open>get_market_bias\<close> gives a direction: the signals of that direction add
  \<^verbatim>\<open>strength / 100\<close> each to a running total, in the order of the list.
\<close>

definition direction_weight :: "string \<Rightarrow> signal list \<Rightarrow> real" where
  "direction_weight d sigs =
     fold (\<lambda>s total. fadd total (fdiv (strength s) 100)) (filter (\<lambda>s. direction s = d) sigs) 0"

text \<open>The share of a direction in percent, as the code computes it.\<close>

definition direction_percentage :: "string \<Rightarrow> signal list \<Rightarrow> real" where
  "direction_percentage d sigs =
     fmul (fdiv (direction_weight d sigs)
             (fadd (direction_weight ''bullish'' sigs) (direction_weight ''bearish'' sigs))) 100"

definition mk_signal :: "string \<Rightarrow> string \<Rightarrow> real \<Rightarrow> real \<Rightarrow> real \<Rightarrow> signal" where
  "mk_signal kind dir p t s =
     \<lparr>signal_type = kind, direction = dir, price = p, timestamp = t, strength = s,
      timeframe = ''current''\<rparr>"

definition bull_of :: "real \<Rightarrow> signal" where
  "bull_of s = mk_signal ''OB_Bullish'' ''bullish'' (11000 / 10000) 0 s"

definition bear_of :: "real \<Rightarrow> signal" where
  "bear_of s = mk_signal ''OB_Bearish'' ''bearish'' (11100 / 10000) 7200 s"

definition two_to_one :: "signal list" where
  "two_to_one = [bull_of 100, bull_of 100, bear_of 100]"

definition eight_to_two :: "signal list" where
  "eight_to_two =
     [bull_of 100, bull_of 100, bull_of 100, bull_of 100, bear_of 100,
      bull_of 100, bull_of 100, bull_of 100, bull_of 100, bear_of 100]"

text \<open>Three bullish signals against three bearish ones, whose exact share is 60 percent.\<close>

definition at_threshold :: "signal list" where
  "at_threshold = [bull_of 70, bull_of 100, bull_of 100, bear_of 60, bear_of 60, bear_of 60]"

text \<open>A frame whose time is not held in a \<^verbatim>\<open>datetime\<close> column.\<close>

definition frame3_no_datetime :: dataframe where
  "frame3_no_datetime = \<lparr>rows = take 3 (rows frame6), has_datetime = False, has_volume = True\<rparr>"

definition sig_a :: signal where
  "sig_a = mk_signal ''FVG_Bullish'' ''bullish'' (10975 / 10000) 7200 (775 / 10)"

definition sig_b :: signal where
  "sig_b = mk_signal ''MSS_Bearish'' ''bearish'' (11050 / 10000) 3600 80"

definition sig_c :: signal where
  "sig_c = mk_signal ''Liquidity_EqualLows'' ''bullish'' (10900 / 10000) 1800 50"

text \<open>An analyzer whose order-block detector fails while the other three find a signal each.\<close>

definition failing_ob_analyzer :: smart_money_analyzer where
  "failing_ob_analyzer =
     \<lparr>fvg_analyzer = (\<lambda>df pair. Inr [sig_a]),
      ob_analyzer = (\<lambda>df pair. Inl (RuntimeError ''order block detector failed'')),
      structure_analyzer = (\<lambda>df pair. Inr [sig_b]),
      liquidity_analyzer = (\<lambda>df pair. Inr [sig_c])\<rparr>"

text \<open>Every signal the four detectors emit on a frame.\<close>

definition detector_signals ::
  "fair_value_gap_analyzer \<Rightarrow> order_block_analyzer \<Rightarrow> market_structure_analyzer
     \<Rightarrow> liquidity_analyzer \<Rightarrow> dataframe \<Rightarrow> string \<Rightarrow> signal set" where
  "detector_signals fa oa ma la df pair =
     (case identify_fvgs fa df pair of Inl e \<Rightarrow> {} | Inr out \<Rightarrow> set out)
     \<union> set (identify_order_blocks oa df pair)
     \<union> set (identify_structure_shifts ma df pair)
     \<union> set (identify_liquidity_zones la df pair)"

text \<open>
  Forty-one quarter-hour candles: lows that fall throughout, so no candle is a swing low;
  highs that peak at the candles 17, 23, 29 and 35, which are the only swing points; a gap
  that ends at candle 2; and one falling candle, 16, just before the first peak.
\<close>

definition frame41 :: dataframe where
  "frame41 =
     \<lparr>rows =
        [mk_candle 0 (10992 / 10000) (10995 / 10000) (10990 / 10000) (10992 / 10000) 1000,
         mk_candle 900 (10960 / 10000) (10990 / 10000) (10960 / 10000) (10990 / 10000) 1000,
         mk_candle 1800 (10945 / 10000) (10950 / 10000) (10940 / 10000) (10945 / 10000) 1000,
         mk_candle 2700 (10950 / 10000) (10960 / 10000) (10939 / 10000) (10950 / 10000) 1000,
         mk_candle 3600 (10950 / 10000) (10960 / 10000) (10938 / 10000) (10950 / 10000) 1000,
         mk_candle 4500 (10950 / 10000) (10961 / 10000) (10937 / 10000) (10950 / 10000) 1000,
         mk_candle 5400 (10950 / 10000) (10962 / 10000) (10936 / 10000) (10950 / 10000) 1000,
         mk_candle 6300 (10950 / 10000) (10963 / 10000) (10935 / 10000) (10950 / 10000) 1000,
         mk_candle 7200 (10950 / 10000) (10964 / 10000) (10934 / 10000) (10950 / 10000) 1000,
         mk_candle 8100 (10950 / 10000) (10965 / 10000) (10933 / 10000) (10950 / 10000) 1000,
         mk_candle 9000 (10950 / 10000) (10966 / 10000) (10932 / 10000) (10950 / 10000) 1000,
         mk_candle 9900 (10950 / 10000) (10967 / 10000) (10931 / 10000) (10950 / 10000) 1000,
         mk_candle 10800 (10950 / 10000) (10968 / 10000) (10930 / 10000) (10950 / 10000) 1000,
         mk_candle 11700 (10950 / 10000) (10969 / 10000) (10929 / 10000) (10950 / 10000) 1000,
         mk_candle 12600 (10950 / 10000) (10970 / 10000) (10928 / 10000) (10950 / 10000) 1000,
         mk_candle 13500 (10950 / 10000) (10971 / 10000) (10927 / 10000) (10950 / 10000) 1000,
         mk_candle 14400 (10965 / 10000) (10972 / 10000) (10926 / 10000) (10955 / 10000) 1000,
         mk_candle 15300 (10950 / 10000) (11000 / 10000) (10925 / 10000) (10950 / 10000) 1000,
         mk_candle 16200 (10950 / 10000) (10960 / 10000) (10924 / 10000) (10950 / 10000) 1000,
         mk_candle 17100 (10950 / 10000) (10960 / 10000) (10923 / 10000) (10950 / 10000) 1000,
         mk_candle 18000 (10950 / 10000) (10960 / 10000) (10922 / 10000) (10950 / 10000) 1000,
         mk_candle 18900 (10950 / 10000) (10960 / 10000) (10921 / 10000) (10950 / 10000) 1000,
         mk_candle 19800 (10950 / 10000) (10960 / 10000) (10920 / 10000) (10950 / 10000) 1000,
         mk_candle 20700 (10950 / 10000) (11010 / 10000) (10919 / 10000) (10950 / 10000) 1000,
         mk_candle 21600 (10950 / 10000) (10960 / 10000) (10918 / 10000) (10950 / 10000) 1000,
         mk_candle 22500 (10950 / 10000) (10960 / 10000) (10917 / 10000) (10950 / 10000) 1000,
         mk_candle 23400 (10950 / 10000) (10960 / 10000) (10916 / 10000) (10950 / 10000) 1000,
         mk_candle 24300 (10950 / 10000) (10960 / 10000) (10915 / 10000) (10950 / 10000) 1000,
         mk_candle 25200 (10950 / 10000) (10960 / 10000) (10914 / 10000) (10950 / 10000) 1000,
         mk_candle 26100 (10950 / 10000) (11020 / 10000) (10913 / 10000) (10950 / 10000) 1000,
         mk_candle 27000 (10950 / 10000) (10960 / 10000) (10912 / 10000) (10950 / 10000) 1000,
         mk_candle 27900 (10950 / 10000) (10960 / 10000) (10911 / 10000) (10950 / 10000) 1000,
         mk_candle 28800 (10950 / 10000) (10960 / 10000) (10910 / 10000) (10950 / 10000) 1000,
         mk_candle 29700 (10950 / 10000) (10960 / 10000) (10909 / 10000) (10950 / 10000) 1000,
         mk_candle 30600 (10950 / 10000) (10960 / 10000) (10908 / 10000) (10950 / 10000) 1000,
         mk_candle 31500 (10950 / 10000) (11021 / 10000) (10907 / 10000) (10950 / 10000) 1000,
         mk_candle 32400 (10950 / 10000) (10960 / 10000) (10906 / 10000) (10950 / 10000) 1000,
         mk_candle 33300 (10950 / 10000) (10960 / 10000) (10905 / 10000) (10950 / 10000) 1000,
         mk_candle 34200 (10950 / 10000) (10960 / 10000) (10904 / 10000) (10950 / 10000) 1000,
         mk_candle 35100 (10950 / 10000) (10960 / 10000) (10903 / 10000) (10950 / 10000) 1000,
         mk_candle 36000 (10950 / 10000) (10960 / 10000) (10902 / 10000) (10950 / 10000) 1000],
      has_datetime = True, has_volume = True\<rparr>"

definition frame41_swings :: "swing_point list" where
  "frame41_swings =
     [\<lparr>sw_type = SwingHigh, sw_price = 11000 / 10000, sw_timestamp = 15300, sw_index = 17\<rparr>,
      \<lparr>sw_type = SwingHigh, sw_price = 11010 / 10000, sw_timestamp = 20700, sw_index = 23\<rparr>,
      \<lparr>sw_type = SwingHigh, sw_price = 11020 / 10000, sw_timestamp = 26100, sw_index = 29\<rparr>,
      \<lparr>sw_type = SwingHigh, sw_price = 11021 / 10000, sw_timestamp = 31500, sw_index = 35\<rparr>]"

definition frame41_fvg :: signal where
  "frame41_fvg = mk_signal ''FVG_Bullish'' ''bullish'' (10970 / 10000) 1800 (775 / 10)"

definition frame41_ob :: signal where
  "frame41_ob = mk_signal ''OB_Bullish'' ''bullish'' (10926 / 10000) 14400 (1595 / 23)"

definition frame41_mss1 :: signal where
  "frame41_mss1 = mk_signal ''MSS_Bullish'' ''bullish'' (11020 / 10000) 26100 60"

definition frame41_mss2 :: signal where
  "frame41_mss2 = mk_signal ''MSS_Bullish'' ''bullish'' (11021 / 10000) 31500 (30 + 200000 / 22041)"

definition frame41_liq :: signal where
  "frame41_liq = mk_signal ''Liquidity_EqualHighs'' ''bearish'' (11020 / 10000) 31500 50"

text \<open>
  Three signals: the third is within tolerance of the first and of the second, the second
  is not within tolerance of the first.
\<close>

definition apart3 :: "signal list" where
  "apart3 =
     [mk_signal ''OB_Bullish'' ''bullish'' (15000 / 100) 0 80,
      mk_signal ''FVG_Bearish'' ''bearish'' (15021 / 100) 900 60,
      mk_signal ''MSS_Bullish'' ''bullish'' (15008 / 100) 1800 70]"

text \<open>
  Nine hourly candles: candle 5 falls and the two candles after it rise 25 pips above its
  high. The first frame is one candle short of the detector's minimum; the tenth candle of
  the second changes nothing else.
\<close>

definition frame9 :: dataframe where
  "frame9 =
     \<lparr>rows =
        [mk_candle 0 (11000 / 10000) (11010 / 10000) (10990 / 10000) (11005 / 10000) 1000,
         mk_candle 3600 (11005 / 10000) (11012 / 10000) (10995 / 10000) (11002 / 10000) 1000,
         mk_candle 7200 (11002 / 10000) (11011 / 10000) (10992 / 10000) (11006 / 10000) 1000,
         mk_candle 10800 (11006 / 10000) (11013 / 10000) (10996 / 10000) (11004 / 10000) 1000,
         mk_candle 14400 (11004 / 10000) (11014 / 10000) (10994 / 10000) (11010 / 10000) 1000,
         mk_candle 18000 (11010 / 10000) (11015 / 10000) (10995 / 10000) (11000 / 10000) 1000,
         mk_candle 21600 (11000 / 10000) (11030 / 10000) (10998 / 10000) (11025 / 10000) 1000,
         mk_candle 25200 (11025 / 10000) (11040 / 10000) (11020 / 10000) (11035 / 10000) 1000,
         mk_candle 28800 (11035 / 10000) (11042 / 10000) (11030 / 10000) (11038 / 10000) 1000],
      has_datetime = True, has_volume = True\<rparr>"

definition frame10 :: dataframe where
  "frame10 =
     frame9\<lparr>rows := rows frame9
        @ [mk_candle 32400 (11038 / 10000) (11045 / 10000) (11032 / 10000) (11040 / 10000) 1000]\<rparr>"

definition frame9_ob :: signal where
  "frame9_ob = mk_signal ''OB_Bullish'' ''bullish'' (10995 / 10000) 18000 60"

section \<open>The scanning loop and the greedy grouping\<close>

lemma scan_loop_concat:
  "scan_loop step is acc =
     acc @ concat (map (\<lambda>i. case step i of Inl e \<Rightarrow> [] | Inr None \<Rightarrow> [] | Inr (Some s) \<Rightarrow> [s]) is)"
  by (induction "is" arbitrary: acc) (auto split: sum.splits option.splits)

lemma set_scan_loop:
  "set (scan_loop step is []) = {s. \<exists>i \<in> set is. step i = Inr (Some s)}"
  by (auto simp: scan_loop_concat split: sum.splits option.splits)

lemma collect_near_eq:
  "distinct js \<Longrightarrow>
   collect_near pr tol xs i js (grp, used) =
     (grp @ filter (\<lambda>y. near_anchor tol (pr (xs ! i)) (pr y)) (unused xs js used),
      used \<union> {j \<in> set js. j \<notin> used \<and> near_anchor tol (pr (xs ! i)) (pr (xs ! j))})"
proof (induction js arbitrary: grp used)
  case Nil
  then show ?case by (simp add: unused_def)
next
  case (Cons j js)
  then have d: "distinct js" and nj: "j \<notin> set js" by auto
  have eq: "filter (\<lambda>k. k \<noteq> j \<and> k \<notin> used) js = filter (\<lambda>k. k \<notin> used) js"
    using nj by (intro filter_cong) auto
  show ?case
  proof (cases "j \<in> used")
    case True
    then show ?thesis using Cons.IH [OF d] by (auto simp: unused_def)
  next
    case False
    show ?thesis
    proof (cases "near_anchor tol (pr (xs ! i)) (pr (xs ! j))")
      case True
      with False show ?thesis using Cons.IH [OF d, of "grp @ [xs ! j]" "insert j used"] nj
        by (auto simp: unused_def eq)
    next
      case n: False
      with False show ?thesis using Cons.IH [OF d] by (auto simp: unused_def)
    qed
  qed
qed

lemma unused_after:
  "k \<notin> set js \<Longrightarrow>
   unused xs js (insert k used \<union> {j \<in> set js. j \<notin> insert k used \<and> P (xs ! j)})
     = filter (\<lambda>y. \<not> P y) (unused xs js used)"
proof -
  assume k: "k \<notin> set js"
  have "filter (\<lambda>j. j \<notin> insert k used \<union> {j \<in> set js. j \<notin> insert k used \<and> P (xs ! j)}) js
        = filter (\<lambda>j. \<not> P (xs ! j)) (filter (\<lambda>j. j \<notin> used) js)"
    unfolding filter_filter using k by (intro filter_cong) auto
  then show ?thesis
    by (simp add: unused_def filter_map comp_def)
qed

lemma equal_levels_loop_eq:
  "n = length pts \<Longrightarrow> k \<le> n \<Longrightarrow>
   fst (equal_levels_loop tol pts [k ..< n] (groups, used)) =
     groups @ map (sort_key sw_timestamp)
       (filter (\<lambda>g. length g \<ge> 2) (greedy_groups sw_price tol (unused pts [k ..< n] used)))"
proof (induction "n - k" arbitrary: k groups used)
  case 0
  then show ?case by (simp add: unused_def)
next
  case (Suc m)
  then have kn: "k < n" and m: "m = n - Suc k" and le: "Suc k \<le> n" by auto
  have upt: "[k ..< n] = k # [Suc k ..< n]" using kn by (simp add: upt_conv_Cons)
  show ?case
  proof (cases "k \<in> used")
    case True
    then show ?thesis using Suc.hyps(1) [OF m Suc.prems(1) le, of groups used]
      by (simp add: upt unused_def)
  next
    case False
    have nk: "k \<notin> set [Suc k ..< n]" by simp
    have u0: "unused pts [Suc k ..< n] (insert k used) = unused pts [Suc k ..< n] used"
      unfolding unused_def by (rule arg_cong [where f = "map _"]) (rule filter_cong, auto)
    have u1: "unused pts [k ..< n] used = pts ! k # unused pts [Suc k ..< n] used"
      using False by (simp add: upt unused_def)
    let ?near = "\<lambda>y. near_anchor tol (sw_price (pts ! k)) (sw_price y)"
    let ?rest = "unused pts [Suc k ..< n] used"
    let ?used' = "insert k used \<union> {j \<in> set [Suc k ..< n]. j \<notin> insert k used \<and> ?near (pts ! j)}"
    have cn: "collect_near sw_price tol pts k [Suc k ..< length pts] ([pts ! k], insert k used)
          = (pts ! k # filter ?near ?rest, ?used')"
      using u0 by (simp add: collect_near_eq Suc.prems(1))
    have u2: "unused pts [Suc k ..< n] ?used' = filter (\<lambda>y. \<not> ?near y) ?rest"
      by (rule unused_after [OF nk])
    have step: "fst (equal_levels_loop tol pts [k ..< n] (groups, used)) =
       fst (equal_levels_loop tol pts [Suc k ..< n]
         (if length (pts ! k # filter ?near ?rest) \<ge> 2
          then groups @ [sort_key sw_timestamp (pts ! k # filter ?near ?rest)] else groups, ?used'))"
      unfolding upt using False cn by simp
    show ?thesis
      unfolding step u1 Suc.hyps(1) [OF m Suc.prems(1) le] u2
      by simp
  qed
qed


lemma find_equal_levels_refines:
  "find_equal_levels self pts =
     (if length pts < 2 then []
      else map (sort_key sw_timestamp)
             (filter (\<lambda>g. length g \<ge> 2)
                (greedy_groups sw_price (equal_level_tolerance self) pts)))"
proof -
  have "unused pts [0 ..< length pts] {} = pts"
    by (simp add: unused_def map_nth)
  then show ?thesis
    using equal_levels_loop_eq [of "length pts" pts 0 "equal_level_tolerance self" "[]" "{}"]
    by (simp add: find_equal_levels_def)
qed

text \<open>
  Claim C7. \<^verbatim>\<open>_find_equal_levels\<close> is the greedy single pass: on two or more points its
  groups are the groups of \<^const>\<open>greedy_groups\<close> with at least two members (each point
  not yet used joins the first anchor whose price it matches within the anchor's price
  times the tolerance, 0.0002 by default), each sorted by time. Four points at the prices
  1.1000, 1.1001, 1.1050, 1.1051 give exactly two groups of two.
\<close>

theorem find_equal_levels_greedy:
  "find_equal_levels self pts =
     (if length pts < 2 then []
      else map (sort_key sw_timestamp)
             (filter (\<lambda>g. length g \<ge> 2)
                (greedy_groups sw_price (equal_level_tolerance self) pts)))
   \<and> equal_level_tolerance LiquidityAnalyzer_init = 2 / 10000
   \<and> (map sw_price pts = [11000 / 10000, 11001 / 10000, 11050 / 10000, 11051 / 10000] \<longrightarrow>
        map (\<lambda>g. set (map sw_price g)) (find_equal_levels LiquidityAnalyzer_init pts)
          = [{11000 / 10000, 11001 / 10000}, {11050 / 10000, 11051 / 10000}]
        \<and> map length (find_equal_levels LiquidityAnalyzer_init pts) = [2, 2])"
proof (intro conjI impI)
  show "find_equal_levels self pts =
     (if length pts < 2 then []
      else map (sort_key sw_timestamp)
             (filter (\<lambda>g. length g \<ge> 2)
                (greedy_groups sw_price (equal_level_tolerance self) pts)))"
    by (rule find_equal_levels_refines)
  show "equal_level_tolerance LiquidityAnalyzer_init = 2 / 10000"
    by (simp add: LiquidityAnalyzer_init_def)
next
  assume p: "map sw_price pts = [11000 / 10000, 11001 / 10000, 11050 / 10000, 11051 / 10000]"
  then obtain a b c d where pts: "pts = [a, b, c, d]"
    and pr: "sw_price a = 11000 / 10000" "sw_price b = 11001 / 10000"
            "sw_price c = 11050 / 10000" "sw_price d = 11051 / 10000"
    by (auto simp: map_eq_Cons_conv)
  have g: "greedy_groups sw_price (equal_level_tolerance LiquidityAnalyzer_init) pts = [[a, b], [c, d]]"
    by (simp add: pts pr near_anchor_def LiquidityAnalyzer_init_def)
  have l: "\<not> length pts < 2" by (simp add: pts)
  have r: "find_equal_levels LiquidityAnalyzer_init pts
        = [sort_key sw_timestamp [a, b], sort_key sw_timestamp [c, d]]"
    unfolding find_equal_levels_refines g using l by (simp del: sort_key_simps)
  show "map (\<lambda>g. set (map sw_price g)) (find_equal_levels LiquidityAnalyzer_init pts)
          = [{11000 / 10000, 11001 / 10000}, {11050 / 10000, 11051 / 10000}]"
    unfolding r by (simp add: pr del: sort_key_simps)
  show "map length (find_equal_levels LiquidityAnalyzer_init pts) = [2, 2]"
    unfolding r by (simp del: sort_key_simps)
qed

theorem find_equal_levels_greedy_witness:
  "map sw_price four_highs = [11000 / 10000, 11001 / 10000, 11050 / 10000, 11051 / 10000]
   \<and> map (map sw_index) (find_equal_levels LiquidityAnalyzer_init four_highs) = [[5, 11], [17, 23]]
   \<and> map length (find_equal_levels LiquidityAnalyzer_init four_highs) = [2, 2]"
proof -
  have p: "map sw_price four_highs = [11000 / 10000, 11001 / 10000, 11050 / 10000, 11051 / 10000]"
    by (simp add: four_highs_def)
  have e: "find_equal_levels LiquidityAnalyzer_init four_highs =
     [[four_highs ! 0, four_highs ! 1], [four_highs ! 2, four_highs ! 3]]"
    by (simp add: find_equal_levels_def LiquidityAnalyzer_init_def four_highs_def
         near_anchor_def upt_rec [of _ "numeral _"] upt_rec [of _ "Suc _"])
  from find_equal_levels_greedy [of LiquidityAnalyzer_init four_highs] p e
  show ?thesis by (simp add: four_highs_def)
qed

section \<open>The minimum length of the liquidity detector\<close>

text \<open>
  Claim C10. On a series of fewer than 20 candles the liquidity detector returns the
  empty list, before any swing point is looked for.
\<close>

theorem liquidity_short_series:
  "length (rows df) < 20 \<Longrightarrow> identify_liquidity_zones self df pair = []"
  by (simp add: identify_liquidity_zones_def)


theorem liquidity_short_series_witness:
  "length (rows frame6) < 20 \<and> identify_liquidity_zones LiquidityAnalyzer_init frame6 ''EURUSD'' = []"
proof -
  have l: "length (rows frame6) < 20" by (simp add: frame6_def)
  from liquidity_short_series [OF l] l show ?thesis by simp
qed
section \<open>The age filter of the gap detector\<close>

lemma get_datetime_Inr: "has_datetime df \<Longrightarrow> get_datetime df c = Inr (c_datetime c)"
  by (simp add: get_datetime_def)

lemma get_datetime_Inl: "\<not> has_datetime df \<Longrightarrow> get_datetime df c = Inl (KeyError ''datetime'')"
  by (simp add: get_datetime_def)

text \<open>
  Claim C8. Whenever \<^verbatim>\<open>identify_fvgs\<close> returns a list (it does on every frame that has
  its \<^verbatim>\<open>datetime\<close> column), a signal is in that list exactly when the scan detected it
  and its timestamp is at most \<^verbatim>\<open>max_age_hours\<close> (24 by default) hours before the
  timestamp of the last candle: older gaps are absent, the others are retained.
\<close>

theorem fvg_age_filter:
  "(has_datetime df \<longrightarrow> (\<exists>out. identify_fvgs self df pair = Inr out))
   \<and> (\<forall>out. identify_fvgs self df pair = Inr out \<longrightarrow>
        (\<forall>s. s \<in> set out \<longleftrightarrow>
              s \<in> set (fvg_scan self df pair)
              \<and> c_datetime (last (rows df)) - timestamp s \<le> real_of_int (max_age_hours self) * 3600))
   \<and> max_age_hours FairValueGapAnalyzer_init = 24"
proof (intro conjI allI impI)
  assume "has_datetime df"
  then show "\<exists>out. identify_fvgs self df pair = Inr out"
    by (simp add: identify_fvgs_def get_datetime_Inr)
next
  fix out s
  assume r: "identify_fvgs self df pair = Inr out"
  show "s \<in> set out \<longleftrightarrow>
          s \<in> set (fvg_scan self df pair)
          \<and> c_datetime (last (rows df)) - timestamp s \<le> real_of_int (max_age_hours self) * 3600"
  proof (cases "length (rows df) < 3")
    case True
    then have e: "[2 ..< length (rows df)] = []" by simp
    have "fvg_scan self df pair = []" by (simp only: fvg_scan_def e scan_loop.simps)
    with True r show ?thesis by (simp add: identify_fvgs_def)
  next
    case False
    with r have h: "has_datetime df"
      by (cases "has_datetime df") (simp_all add: identify_fvgs_def get_datetime_Inl)
    with False r have "out = filter (\<lambda>s. age_hours (c_datetime (last (rows df))) s
                          \<le> real_of_int (max_age_hours self)) (fvg_scan self df pair)"
      by (simp add: identify_fvgs_def get_datetime_Inr)
    then show ?thesis by (auto simp: age_hours_def field_simps)
  qed
next
  show "max_age_hours FairValueGapAnalyzer_init = 24"
    by (simp add: FairValueGapAnalyzer_init_def)
qed

lemma frame7_scan:
  "fvg_scan FairValueGapAnalyzer_init frame7 ''EURUSD'' =
     [frame7_old, frame7_fresh]"
  by (simp add: frame7_old_def frame7_fresh_def fvg_scan_def frame7_def mk_candle_def fvg_step_def pip_value_of_def
        FairValueGapAnalyzer_init_def is_bullish_impulse_def is_bearish_impulse_def
        calculate_fvg_strength_def fvg_gap_strength_def fvg_impulse_strength_def
        fvg_context_strength_def relative_volume_strength_def mean_def slice_def
        get_datetime_def Let_def upt_rec [of _ "numeral _"])

theorem fvg_age_filter_witness:
  "has_datetime frame7
   \<and> identify_fvgs FairValueGapAnalyzer_init frame7 ''EURUSD'' = Inr [frame7_fresh]
   \<and> frame7_old \<in> set (fvg_scan FairValueGapAnalyzer_init frame7 ''EURUSD'')
   \<and> \<not> c_datetime (last (rows frame7)) - timestamp frame7_old \<le> 24 * 3600
   \<and> c_datetime (last (rows frame7)) - timestamp frame7_fresh \<le> 24 * 3600"
proof -
  have h: "has_datetime frame7" by (simp add: frame7_def)
  have t: "c_datetime (last (rows frame7)) = 110800" by (simp add: frame7_def mk_candle_def)
  have e: "identify_fvgs FairValueGapAnalyzer_init frame7 ''EURUSD'' = Inr [frame7_fresh]"
    unfolding identify_fvgs_def frame7_scan get_datetime_Inr [OF h] t
    by (simp add: frame7_def age_hours_def frame7_old_def frame7_fresh_def
          FairValueGapAnalyzer_init_def)
  have m: "\<forall>s. s \<in> set [frame7_fresh] \<longleftrightarrow>
             s \<in> set (fvg_scan FairValueGapAnalyzer_init frame7 ''EURUSD'')
             \<and> c_datetime (last (rows frame7)) - timestamp s
                   \<le> real_of_int (max_age_hours FairValueGapAnalyzer_init) * 3600"
    using fvg_age_filter [of frame7 FairValueGapAnalyzer_init "''EURUSD''"] e by blast
  have a: "max_age_hours FairValueGapAnalyzer_init = 24"
    by (simp add: FairValueGapAnalyzer_init_def)
  have o: "frame7_old \<in> set (fvg_scan FairValueGapAnalyzer_init frame7 ''EURUSD'')"
    by (simp add: frame7_scan)
  have n: "frame7_old \<notin> set [frame7_fresh]"
    by (simp add: frame7_old_def frame7_fresh_def)
  from m n o have "\<not> c_datetime (last (rows frame7)) - timestamp frame7_old \<le> 24 * 3600"
    unfolding a by auto
  moreover from m have "c_datetime (last (rows frame7)) - timestamp frame7_fresh \<le> 24 * 3600"
    unfolding a by auto
  ultimately show ?thesis using h e o by simp
qed

section \<open>Market bias\<close>

subsection \<open>Evaluating the rounding\<close>

lemma fl_value:
  assumes "2 powr of_int k \<le> \<bar>x\<bar>" and "\<bar>x\<bar> < 2 powr (of_int k + 1)"
    and "of_int (round_half_even (x / 2 powr (of_int k - 52))) * 2 powr (of_int k - 52) = y"
  shows "fl x = y"
proof -
  have pos: "0 < \<bar>x\<bar>"
    using assms(1) powr_gt_zero [of 2 "of_int k"] by linarith
  then have "\<lfloor>log 2 \<bar>x\<bar>\<rfloor> = k"
    using assms(1,2) by (simp add: floor_log_eq_powr_iff)
  moreover have "x \<noteq> 0" using pos by auto
  ultimately show ?thesis using assms(3) by (simp add: fl_def Let_def)
qed

lemmas fl_simps = round_half_even_def Let_def powr_minus powr_numeral fadd_def fmul_def fdiv_def

lemma fl_0: "fl 0 = 0"
  by (simp add: fl_def)

lemma fadd_0_0: "fadd 0 0 = 0"
  by (simp add: fadd_def fl_0)

lemma unit_weight: "fdiv 100 100 = 1"
  unfolding fdiv_def by (rule fl_value [where k = 0]) (simp_all add: fl_simps)

lemma count_up:
  "fadd 0 1 = 1" "fadd 1 1 = 2" "fadd 2 1 = 3" "fadd 3 1 = 4"
  "fadd 4 1 = 5" "fadd 5 1 = 6" "fadd 6 1 = 7" "fadd 7 1 = 8"
proof -
  show "fadd 0 1 = 1" unfolding fadd_def
    by (rule fl_value [where k = 0]) (simp_all add: fl_simps)
  show "fadd 1 1 = 2" unfolding fadd_def
    by (rule fl_value [where k = 1]) (simp_all add: fl_simps)
  show "fadd 2 1 = 3" unfolding fadd_def
    by (rule fl_value [where k = 1]) (simp_all add: fl_simps)
  show "fadd 3 1 = 4" unfolding fadd_def
    by (rule fl_value [where k = 2]) (simp_all add: fl_simps)
  show "fadd 4 1 = 5" unfolding fadd_def
    by (rule fl_value [where k = 2]) (simp_all add: fl_simps)
  show "fadd 5 1 = 6" unfolding fadd_def
    by (rule fl_value [where k = 2]) (simp_all add: fl_simps)
  show "fadd 6 1 = 7" unfolding fadd_def
    by (rule fl_value [where k = 2]) (simp_all add: fl_simps)
  show "fadd 7 1 = 8" unfolding fadd_def
    by (rule fl_value [where k = 3]) (simp_all add: fl_simps)
qed

text \<open>Weights 8 and 2: the share is the float nearest 0.8, and a hundred times it is 80.\<close>

lemma eight_two_total: "fadd 8 2 = 10"
  unfolding fadd_def by (rule fl_value [where k = 3]) (simp_all add: fl_simps)

lemma eight_two_share: "fdiv 8 10 = 3602879701896397 / 4503599627370496"
  unfolding fdiv_def by (rule fl_value [where k = "-1"]) (simp_all add: fl_simps)

lemma eight_two_percentage: "fmul (3602879701896397 / 4503599627370496) 100 = 80"
  unfolding fmul_def by (rule fl_value [where k = 6]) (simp_all add: fl_simps)

lemma two_ten_share: "fdiv 2 10 = 3602879701896397 / 18014398509481984"
  unfolding fdiv_def by (rule fl_value [where k = "-3"]) (simp_all add: fl_simps)

lemma py_round1_80: "py_round1 80 = 80"
  unfolding py_round1_def by (rule fl_value [where k = 6]) (simp_all add: fl_simps)

lemma py_round1_50: "py_round1 50 = 50"
  unfolding py_round1_def by (rule fl_value [where k = 5]) (simp_all add: fl_simps)

lemma py_round1_60: "py_round1 (8444249301319681 / 140737488355328) = 60"
  unfolding py_round1_def by (rule fl_value [where k = 5]) (simp_all add: fl_simps)

text \<open>Weights 2 and 1: the computed share is 66.66666666666666, which rounds to 66.7.\<close>

lemma two_one_total: "fadd 2 1 = 3"
  by (rule count_up)

lemma two_one_share: "fdiv 2 3 = 6004799503160661 / 9007199254740992"
  unfolding fdiv_def by (rule fl_value [where k = "-1"]) (simp_all add: fl_simps)

lemma two_one_percentage:
  "fmul (6004799503160661 / 9007199254740992) 100 = 2345624805922133 / 35184372088832"
  unfolding fmul_def by (rule fl_value [where k = 6]) (simp_all add: fl_simps)

lemma two_one_rounded:
  "py_round1 (2345624805922133 / 35184372088832) = 4693595236650189 / 70368744177664"
  unfolding py_round1_def by (rule fl_value [where k = 6]) (simp_all add: fl_simps)

text \<open>Strengths 70, 100, 100 and 60, 60, 60: the sums 2.7 and 1.7999999999999998.\<close>

lemma weight_70: "fdiv 70 100 = 3152519739159347 / 4503599627370496"
  unfolding fdiv_def by (rule fl_value [where k = "-1"]) (simp_all add: fl_simps)

lemma weight_60: "fdiv 60 100 = 5404319552844595 / 9007199254740992"
  unfolding fdiv_def by (rule fl_value [where k = "-1"]) (simp_all add: fl_simps)

lemma bull_sum:
  "fadd 0 (3152519739159347 / 4503599627370496) = 3152519739159347 / 4503599627370496"
  "fadd (3152519739159347 / 4503599627370496) 1 = 7656119366529843 / 4503599627370496"
  "fadd (7656119366529843 / 4503599627370496) 1 = 3039929748475085 / 1125899906842624"
proof -
  show "fadd 0 (3152519739159347 / 4503599627370496) = 3152519739159347 / 4503599627370496"
    unfolding fadd_def by (rule fl_value [where k = "-1"]) (simp_all add: fl_simps)
  show "fadd (3152519739159347 / 4503599627370496) 1 = 7656119366529843 / 4503599627370496"
    unfolding fadd_def by (rule fl_value [where k = 0]) (simp_all add: fl_simps)
  show "fadd (7656119366529843 / 4503599627370496) 1 = 3039929748475085 / 1125899906842624"
    unfolding fadd_def by (rule fl_value [where k = 1]) (simp_all add: fl_simps)
qed

lemma bear_sum:
  "fadd 0 (5404319552844595 / 9007199254740992) = 5404319552844595 / 9007199254740992"
  "fadd (5404319552844595 / 9007199254740992) (5404319552844595 / 9007199254740992)
     = 5404319552844595 / 4503599627370496"
  "fadd (5404319552844595 / 4503599627370496) (5404319552844595 / 9007199254740992)
     = 2026619832316723 / 1125899906842624"
proof -
  show "fadd 0 (5404319552844595 / 9007199254740992) = 5404319552844595 / 9007199254740992"
    unfolding fadd_def by (rule fl_value [where k = "-1"]) (simp_all add: fl_simps)
  show "fadd (5404319552844595 / 9007199254740992) (5404319552844595 / 9007199254740992)
     = 5404319552844595 / 4503599627370496"
    unfolding fadd_def by (rule fl_value [where k = 0]) (simp_all add: fl_simps)
  show "fadd (5404319552844595 / 4503599627370496) (5404319552844595 / 9007199254740992)
     = 2026619832316723 / 1125899906842624"
    unfolding fadd_def by (rule fl_value [where k = 0]) (simp_all add: fl_simps)
qed

lemma threshold_total:
  "fadd (3039929748475085 / 1125899906842624) (2026619832316723 / 1125899906842624) = 9 / 2"
  unfolding fadd_def by (rule fl_value [where k = 2]) (simp_all add: fl_simps)

lemma threshold_share:
  "fdiv (3039929748475085 / 1125899906842624) (9 / 2) = 1351079888211149 / 2251799813685248"
  unfolding fdiv_def by (rule fl_value [where k = "-1"]) (simp_all add: fl_simps)

lemma threshold_percentage:
  "fmul (1351079888211149 / 2251799813685248) 100 = 8444249301319681 / 140737488355328"
  unfolding fmul_def by (rule fl_value [where k = 5]) (simp_all add: fl_simps)

subsection \<open>The rule\<close>

lemma bias_scores_fold:
  "fold (\<lambda>s (bullish_score, bearish_score).
             (let weight = fdiv (strength s) 100
              in if direction s = ''bullish'' then (fadd bullish_score weight, bearish_score)
                 else if direction s = ''bearish'' then (bullish_score, fadd bearish_score weight)
                 else (bullish_score, bearish_score)))
       sigs (b, r)
   = (fold (\<lambda>s total. fadd total (fdiv (strength s) 100))
        (filter (\<lambda>s. direction s = ''bullish'') sigs) b,
      fold (\<lambda>s total. fadd total (fdiv (strength s) 100))
        (filter (\<lambda>s. direction s = ''bearish'') sigs) r)"
  by (induction sigs arbitrary: b r) (auto simp: Let_def)

lemma bias_scores_eq:
  "bias_scores sigs = (direction_weight ''bullish'' sigs, direction_weight ''bearish'' sigs)"
  by (simp add: bias_scores_def bias_scores_fold direction_weight_def)

lemma round_tenth_near: "\<bar>of_int (round_half_even (x * 10)) / 10 - x\<bar> \<le> 1 / 20"
proof -
  define f where "f = \<lfloor>x * 10\<rfloor>"
  have b: "of_int f \<le> x * 10" "x * 10 < of_int f + 1"
    unfolding f_def by linarith+
  have "round_half_even (x * 10) = f \<or> round_half_even (x * 10) = f + 1"
    by (simp add: round_half_even_def Let_def f_def)
  moreover have "round_half_even (x * 10) = f \<Longrightarrow> x * 10 - of_int f \<le> 1 / 2"
    by (simp add: round_half_even_def Let_def f_def split: if_splits)
  moreover have "round_half_even (x * 10) = f + 1 \<Longrightarrow> x * 10 - of_int f \<ge> 1 / 2"
    by (simp add: round_half_even_def Let_def f_def split: if_splits)
  ultimately consider
      "round_half_even (x * 10) = f" "x * 10 - of_int f \<le> 1 / 2"
    | "round_half_even (x * 10) = f + 1" "x * 10 - of_int f \<ge> 1 / 2"
    by blast
  then show ?thesis
  proof cases
    case 1
    show ?thesis unfolding 1(1) abs_le_iff using b 1(2) by argo
  next
    case 2
    have e: "real_of_int (f + 1) = of_int f + 1" by simp
    show ?thesis unfolding 2(1) e abs_le_iff using b 2(2) by argo
  qed
qed

text \<open>
  Claim C5, as amended. Each signal adds \<^verbatim>\<open>strength / 100\<close> to the total of its direction.
  A zero total gives NEUTRAL with confidence 0. Otherwise the result is BULLISH when the
  bullish share of the total, as computed, exceeds 60 percent, else BEARISH when the bearish
  share does, and the confidence is that share rounded to one decimal place (so within 0.05
  of it, up to the last rounding to a float); in the remaining case it is NEUTRAL with
  confidence 50. Bullish weight 8 against bearish weight 2 gives BULLISH with confidence 80.
\<close>

theorem market_bias_rule:
  fixes sigs :: "signal list"
  defines "bull \<equiv> direction_weight ''bullish'' sigs"
      and "bear \<equiv> direction_weight ''bearish'' sigs"
      and "bull_pct \<equiv> direction_percentage ''bullish'' sigs"
      and "bear_pct \<equiv> direction_percentage ''bearish'' sigs"
  shows "(fadd bull bear = 0 \<longrightarrow> get_market_bias sigs = \<lparr>bias = ''NEUTRAL'', confidence = 0\<rparr>)
   \<and> (fadd bull bear \<noteq> 0 \<and> bull_pct > 60 \<longrightarrow>
        get_market_bias sigs = \<lparr>bias = ''BULLISH'', confidence = py_round1 bull_pct\<rparr>)
   \<and> (fadd bull bear \<noteq> 0 \<and> \<not> bull_pct > 60 \<and> bear_pct > 60 \<longrightarrow>
        get_market_bias sigs = \<lparr>bias = ''BEARISH'', confidence = py_round1 bear_pct\<rparr>)
   \<and> (fadd bull bear \<noteq> 0 \<and> \<not> bull_pct > 60 \<and> \<not> bear_pct > 60 \<longrightarrow>
        get_market_bias sigs = \<lparr>bias = ''NEUTRAL'', confidence = 50\<rparr>)
   \<and> (bull = 8 \<and> bear = 2 \<longrightarrow> get_market_bias sigs = \<lparr>bias = ''BULLISH'', confidence = 80\<rparr>)
   \<and> py_round1 bull_pct = fl (of_int (round_half_even (bull_pct * 10)) / 10)
   \<and> \<bar>of_int (round_half_even (bull_pct * 10)) / 10 - bull_pct\<bar> \<le> 1 / 20
   \<and> py_round1 bear_pct = fl (of_int (round_half_even (bear_pct * 10)) / 10)
   \<and> \<bar>of_int (round_half_even (bear_pct * 10)) / 10 - bear_pct\<bar> \<le> 1 / 20"
proof -
  have e: "sigs = [] \<Longrightarrow> fadd bull bear = 0"
    by (simp add: bull_def bear_def direction_weight_def fadd_0_0)
  have g: "get_market_bias sigs =
     (if fadd bull bear = 0 then \<lparr>bias = ''NEUTRAL'', confidence = 0\<rparr>
      else if bull_pct > 60 then \<lparr>bias = ''BULLISH'', confidence = py_round1 bull_pct\<rparr>
      else if bear_pct > 60 then \<lparr>bias = ''BEARISH'', confidence = py_round1 bear_pct\<rparr>
      else \<lparr>bias = ''NEUTRAL'', confidence = 50\<rparr>)"
    using e
    by (simp add: get_market_bias_def bias_scores_eq Let_def py_round1_50 bull_def bear_def
          bull_pct_def bear_pct_def direction_percentage_def)
  have p: "bull = 8 \<Longrightarrow> bear = 2 \<Longrightarrow> fadd bull bear = 10 \<and> bull_pct = 80"
    by (simp add: bull_pct_def direction_percentage_def bull_def [symmetric] bear_def [symmetric]
          eight_two_total eight_two_share eight_two_percentage)
  have "bull = 8 \<and> bear = 2 \<longrightarrow> get_market_bias sigs = \<lparr>bias = ''BULLISH'', confidence = 80\<rparr>"
    using p unfolding g by (auto simp: py_round1_80)
  then show ?thesis
    unfolding g using round_tenth_near [of bull_pct] round_tenth_near [of bear_pct]
    by (simp add: py_round1_def)
qed

lemma eight_to_two_weights:
  "direction_weight ''bullish'' eight_to_two = 8" "direction_weight ''bearish'' eight_to_two = 2"
  by (simp_all add: direction_weight_def eight_to_two_def bull_of_def bear_of_def mk_signal_def
        unit_weight count_up)

lemma at_threshold_weights:
  "direction_weight ''bullish'' at_threshold = 3039929748475085 / 1125899906842624"
  "direction_weight ''bearish'' at_threshold = 2026619832316723 / 1125899906842624"
  by (simp_all add: direction_weight_def at_threshold_def bull_of_def bear_of_def mk_signal_def
        unit_weight weight_70 weight_60 bull_sum bear_sum)

lemma at_threshold_percentage:
  "direction_percentage ''bullish'' at_threshold = 8444249301319681 / 140737488355328"
  by (simp add: direction_percentage_def at_threshold_weights threshold_total threshold_share
        threshold_percentage)

theorem market_bias_rule_witness:
  "direction_weight ''bullish'' eight_to_two = 8 \<and> direction_weight ''bearish'' eight_to_two = 2
   \<and> get_market_bias eight_to_two = \<lparr>bias = ''BULLISH'', confidence = 80\<rparr>
   \<and> fadd (direction_weight ''bullish'' at_threshold) (direction_weight ''bearish'' at_threshold) = 9 / 2
   \<and> direction_percentage ''bullish'' at_threshold = 8444249301319681 / 140737488355328
   \<and> (8444249301319681 / 140737488355328 :: real) > 60
   \<and> get_market_bias at_threshold = \<lparr>bias = ''BULLISH'', confidence = 60\<rparr>"
proof -
  have w: "direction_weight ''bullish'' eight_to_two = 8 \<and> direction_weight ''bearish'' eight_to_two = 2"
    by (simp add: eight_to_two_weights)
  with market_bias_rule [of eight_to_two]
  have a: "get_market_bias eight_to_two = \<lparr>bias = ''BULLISH'', confidence = 80\<rparr>" by blast
  have t: "fadd (direction_weight ''bullish'' at_threshold) (direction_weight ''bearish'' at_threshold) = 9 / 2"
    by (simp add: at_threshold_weights threshold_total)
  then have n: "fadd (direction_weight ''bullish'' at_threshold)
                  (direction_weight ''bearish'' at_threshold) \<noteq> 0" by simp
  have g: "direction_percentage ''bullish'' at_threshold > 60"
    by (simp add: at_threshold_percentage)
  from market_bias_rule [of at_threshold] n g
  have "get_market_bias at_threshold =
          \<lparr>bias = ''BULLISH'', confidence = py_round1 (direction_percentage ''bullish'' at_threshold)\<rparr>"
    by blast
  then have b: "get_market_bias at_threshold = \<lparr>bias = ''BULLISH'', confidence = 60\<rparr>"
    by (simp add: at_threshold_percentage py_round1_60)
  from w a t b show ?thesis by (simp add: at_threshold_percentage)
qed

text \<open>
  Claim C5 as stated fails: two bullish signals and one bearish signal of strength 100 give
  a computed bullish share of 66.66666666666666, and the confidence returned is the float
  66.7.
\<close>

theorem market_bias_confidence_counterexample:
  "direction_weight ''bullish'' two_to_one = 2 \<and> direction_weight ''bearish'' two_to_one = 1
   \<and> direction_percentage ''bullish'' two_to_one = 2345624805922133 / 35184372088832
   \<and> bias (get_market_bias two_to_one) = ''BULLISH''
   \<and> confidence (get_market_bias two_to_one) = 4693595236650189 / 70368744177664
   \<and> confidence (get_market_bias two_to_one) \<noteq> direction_percentage ''bullish'' two_to_one"
proof -
  have w: "direction_weight ''bullish'' two_to_one = 2" "direction_weight ''bearish'' two_to_one = 1"
    by (simp_all add: direction_weight_def two_to_one_def bull_of_def bear_of_def mk_signal_def
          unit_weight count_up)
  have p: "direction_percentage ''bullish'' two_to_one = 2345624805922133 / 35184372088832"
    by (simp add: direction_percentage_def w two_one_total two_one_share two_one_percentage)
  have n: "two_to_one \<noteq> []" by (simp add: two_to_one_def)
  have "get_market_bias two_to_one =
          \<lparr>bias = ''BULLISH'', confidence = 4693595236650189 / 70368744177664\<rparr>"
    using n
    by (simp add: get_market_bias_def bias_scores_eq w Let_def two_one_total two_one_share
          two_one_percentage two_one_rounded)
  then show ?thesis by (simp add: w p)
qed

section \<open>The aggregator and detector failures\<close>

lemma identify_fvgs_raises:
  "3 \<le> length (rows df) \<Longrightarrow> \<not> has_datetime df \<Longrightarrow>
   identify_fvgs self df pair = Inl (KeyError ''datetime'')"
  by (simp add: identify_fvgs_def get_datetime_def)

text \<open>
  Claim C1, as amended. An exception raised by a detector is caught and logged, and
  \<^verbatim>\<open>analyze\<close> returns: the categories of the detectors that ran before the failing one
  keep their signals, the category of the failing detector and of every detector after it
  (in the order gaps, order blocks, market structure, liquidity) is empty, the later
  detectors are not started, and \<^verbatim>\<open>all_signals\<close> is empty. When no detector raises, every
  category holds its detector's signals and \<^verbatim>\<open>all_signals\<close> is their merge, latest first.
\<close>

theorem analyze_single_try:
  "(fvg_analyzer self df pair = Inl e \<longrightarrow>
      analyze self df pair = (empty_results, [InfoFairValueGaps, ErrorLogged e]))
   \<and> (fvg_analyzer self df pair = Inr fvgs \<and> ob_analyzer self df pair = Inl e \<longrightarrow>
      analyze self df pair =
        (empty_results\<lparr>fair_value_gaps := fvgs\<rparr>,
         [InfoFairValueGaps, InfoOrderBlocks, ErrorLogged e]))
   \<and> (fvg_analyzer self df pair = Inr fvgs \<and> ob_analyzer self df pair = Inr obs
        \<and> structure_analyzer self df pair = Inl e \<longrightarrow>
      analyze self df pair =
        (empty_results\<lparr>fair_value_gaps := fvgs, order_blocks := obs\<rparr>,
         [InfoFairValueGaps, InfoOrderBlocks, InfoMarketStructure, ErrorLogged e]))
   \<and> (fvg_analyzer self df pair = Inr fvgs \<and> ob_analyzer self df pair = Inr obs
        \<and> structure_analyzer self df pair = Inr mss \<and> liquidity_analyzer self df pair = Inl e \<longrightarrow>
      analyze self df pair =
        (empty_results\<lparr>fair_value_gaps := fvgs, order_blocks := obs, market_structure := mss\<rparr>,
         [InfoFairValueGaps, InfoOrderBlocks, InfoMarketStructure, InfoLiquidity, ErrorLogged e]))
   \<and> (fvg_analyzer self df pair = Inr fvgs \<and> ob_analyzer self df pair = Inr obs
        \<and> structure_analyzer self df pair = Inr mss \<and> liquidity_analyzer self df pair = Inr lqs \<longrightarrow>
      analyze self df pair =
        (\<lparr>fair_value_gaps = fvgs, order_blocks = obs, market_structure = mss,
          liquidity_zones = lqs, all_signals = sort_desc timestamp (fvgs @ obs @ mss @ lqs)\<rparr>,
         [InfoFairValueGaps, InfoOrderBlocks, InfoMarketStructure, InfoLiquidity,
          InfoComplete (length (fvgs @ obs @ mss @ lqs))]))"
  by (simp add: analyze_def Let_def sort_desc_def)

theorem analyze_single_try_witness:
  "ob_analyzer failing_ob_analyzer frame6 ''EURUSD'' = Inl (RuntimeError ''order block detector failed'')
   \<and> analyze failing_ob_analyzer frame6 ''EURUSD'' =
       (empty_results\<lparr>fair_value_gaps := [sig_a]\<rparr>,
        [InfoFairValueGaps, InfoOrderBlocks,
         ErrorLogged (RuntimeError ''order block detector failed'')])"
proof -
  have f: "fvg_analyzer failing_ob_analyzer frame6 ''EURUSD'' = Inr [sig_a]"
    and o: "ob_analyzer failing_ob_analyzer frame6 ''EURUSD''
              = Inl (RuntimeError ''order block detector failed'')"
    by (simp_all add: failing_ob_analyzer_def)
  from analyze_single_try [of failing_ob_analyzer frame6 "''EURUSD''"
        "RuntimeError ''order block detector failed''" "[sig_a]"] f o
  show ?thesis by blast
qed

text \<open>
  Claim C1 as stated fails: when the order-block detector raises, the signals that the
  structure and liquidity detectors return are not in the result, these detectors are never
  started, and the gap signal already found is missing from \<^verbatim>\<open>all_signals\<close>. On a frame
  without a \<^verbatim>\<open>datetime\<close> column the gap detector itself raises and none of the other three
  detectors of the default analyzer is started.
\<close>

theorem analyze_isolation_counterexample:
  "structure_analyzer failing_ob_analyzer frame6 ''EURUSD'' = Inr [sig_b]
   \<and> liquidity_analyzer failing_ob_analyzer frame6 ''EURUSD'' = Inr [sig_c]
   \<and> fvg_analyzer failing_ob_analyzer frame6 ''EURUSD'' = Inr [sig_a]
   \<and> ob_analyzer failing_ob_analyzer frame6 ''EURUSD''
        = Inl (RuntimeError ''order block detector failed'')
   \<and> market_structure (fst (analyze failing_ob_analyzer frame6 ''EURUSD'')) = []
   \<and> liquidity_zones (fst (analyze failing_ob_analyzer frame6 ''EURUSD'')) = []
   \<and> all_signals (fst (analyze failing_ob_analyzer frame6 ''EURUSD'')) = []
   \<and> InfoMarketStructure \<notin> set (snd (analyze failing_ob_analyzer frame6 ''EURUSD''))
   \<and> InfoLiquidity \<notin> set (snd (analyze failing_ob_analyzer frame6 ''EURUSD''))
   \<and> analyze SmartMoneyAnalyzer_init frame3_no_datetime ''EURUSD''
        = (empty_results, [InfoFairValueGaps, ErrorLogged (KeyError ''datetime'')])"
proof -
  have "length (rows frame3_no_datetime) = 3" "\<not> has_datetime frame3_no_datetime"
    by (simp_all add: frame3_no_datetime_def frame6_def)
  then have "identify_fvgs FairValueGapAnalyzer_init frame3_no_datetime ''EURUSD''
               = Inl (KeyError ''datetime'')"
    by (simp add: identify_fvgs_raises)
  then show ?thesis
    by (simp add: analyze_def failing_ob_analyzer_def empty_results_def SmartMoneyAnalyzer_init_def)
qed

section \<open>The relative-volume factor of a gap\<close>

lemma length_slice: "length (slice xs a b) = min (b - a) (length xs - a)"
  by (simp add: slice_def)

lemma fvg_step_strength:
  assumes "fvg_step self df pip i = Inr (Some s)"
  shows "strength s = calculate_fvg_strength df
           (if c_low (rows df ! (i - 2)) > c_high (rows df ! i)
            then (c_low (rows df ! (i - 2)) - c_high (rows df ! i)) / pip
            else (c_low (rows df ! i) - c_high (rows df ! (i - 2))) / pip)
           (rows df ! (i - 1)) (slice (rows df) (i - 10) (i + 1))"
  using assms
  by (auto simp: fvg_step_def Let_def get_datetime_def split: if_splits)

text \<open>
  Claim C4, as amended. The strength of an emitted gap signal is the clamped sum of four
  sub-scores. The relative-volume sub-score is \<^verbatim>\<open>min(25, impulse_volume / mean * 10)\<close>, the
  mean taken over the context window (candles \<open>max 0 (i - 10)\<close> to \<open>i\<close>), when the frame has a
  volume column, the window has more than five candles (\<open>i \<ge> 5\<close>) and that mean is positive;
  it is 0 when the column and the candles are there and the mean is not positive; it is the
  flat 15 when the column is missing or \<open>i < 5\<close>. No case divides by zero.
\<close>

theorem fvg_relative_volume_score:
  assumes "fvg_step self df pip i = Inr (Some s)" and "i < length (rows df)"
  shows "strength s = min 100 (max 0
             (fvg_gap_strength
                (if c_low (rows df ! (i - 2)) > c_high (rows df ! i)
                 then (c_low (rows df ! (i - 2)) - c_high (rows df ! i)) / pip
                 else (c_low (rows df ! i) - c_high (rows df ! (i - 2))) / pip)
              + fvg_impulse_strength (rows df ! (i - 1))
              + relative_volume_strength df (rows df ! (i - 1)) (slice (rows df) (i - 10) (i + 1))
              + fvg_context_strength (slice (rows df) (i - 10) (i + 1))))
     \<and> relative_volume_strength df (rows df ! (i - 1)) (slice (rows df) (i - 10) (i + 1)) =
           (if has_volume df \<and> 5 \<le> i then
              (if mean (map c_volume (slice (rows df) (i - 10) (i + 1))) > 0
               then min 25 (c_volume (rows df ! (i - 1))
                            / mean (map c_volume (slice (rows df) (i - 10) (i + 1))) * 10)
               else 0)
            else 15)"
proof
  from fvg_step_strength [OF assms(1)]
  show "strength s = min 100 (max 0
             (fvg_gap_strength
                (if c_low (rows df ! (i - 2)) > c_high (rows df ! i)
                 then (c_low (rows df ! (i - 2)) - c_high (rows df ! i)) / pip
                 else (c_low (rows df ! i) - c_high (rows df ! (i - 2))) / pip)
              + fvg_impulse_strength (rows df ! (i - 1))
              + relative_volume_strength df (rows df ! (i - 1)) (slice (rows df) (i - 10) (i + 1))
              + fvg_context_strength (slice (rows df) (i - 10) (i + 1))))"
    unfolding calculate_fvg_strength_def .
  have "length (slice (rows df) (i - 10) (i + 1)) > 5 \<longleftrightarrow> 5 \<le> i"
    using assms(2) by (auto simp: length_slice)
  then show "relative_volume_strength df (rows df ! (i - 1)) (slice (rows df) (i - 10) (i + 1)) =
           (if has_volume df \<and> 5 \<le> i then
              (if mean (map c_volume (slice (rows df) (i - 10) (i + 1))) > 0
               then min 25 (c_volume (rows df ! (i - 1))
                            / mean (map c_volume (slice (rows df) (i - 10) (i + 1))) * 10)
               else 0)
            else 15)"
    by (simp add: relative_volume_strength_def Let_def)
qed

lemma frame7_step6:
  "fvg_step FairValueGapAnalyzer_init frame7 (1 / 10000) 6 = Inr (Some frame7_fresh)"
  by (simp add: frame7_def frame7_fresh_def mk_candle_def fvg_step_def
        FairValueGapAnalyzer_init_def is_bullish_impulse_def is_bearish_impulse_def
        calculate_fvg_strength_def fvg_gap_strength_def fvg_impulse_strength_def
        fvg_context_strength_def relative_volume_strength_def mean_def slice_def
        get_datetime_def Let_def)

theorem fvg_relative_volume_score_witness:
  "fvg_step FairValueGapAnalyzer_init frame7 (1 / 10000) 6 = Inr (Some frame7_fresh)
   \<and> 6 < length (rows frame7)
   \<and> relative_volume_strength frame7 (rows frame7 ! 5) (slice (rows frame7) 0 7) = 10
   \<and> strength frame7_fresh = 725 / 10"
proof -
  have l: "6 < length (rows frame7)" by (simp add: frame7_def)
  have m: "mean (map c_volume (slice (rows frame7) 0 7)) = 1000"
    by (simp add: frame7_def mk_candle_def mean_def slice_def)
  have v: "c_volume (rows frame7 ! 5) = 1000" "has_volume frame7"
    by (simp_all add: frame7_def mk_candle_def)
  from fvg_relative_volume_score [OF frame7_step6 l]
  have "relative_volume_strength frame7 (rows frame7 ! 5) (slice (rows frame7) 0 7) = 10"
    by (simp add: m v)
  then show ?thesis using frame7_step6 l by (simp add: frame7_fresh_def)
qed

text \<open>
  Claim C4 as stated fails: the six candles of \<^const>\<open>frame6\<close> carry a volume column whose
  mean is zero, the gap signal at index 5 is emitted, and its relative-volume sub-score is
  0, not 15: the strength is 25 + 25 + 0 + 12.5.
\<close>

theorem fvg_zero_volume_counterexample:
  "identify_fvgs FairValueGapAnalyzer_init frame6 ''EURUSD'' =
     Inr [\<lparr>signal_type = ''FVG_Bullish'', direction = ''bullish'', price = 10975 / 10000,
           timestamp = 18000, strength = 625 / 10, timeframe = ''current''\<rparr>]
   \<and> has_volume frame6
   \<and> length (slice (rows frame6) 0 6) = 6
   \<and> mean (map c_volume (slice (rows frame6) 0 6)) = 0
   \<and> relative_volume_strength frame6 (rows frame6 ! 4) (slice (rows frame6) 0 6) = 0
   \<and> fvg_gap_strength 50 = 25
   \<and> fvg_impulse_strength (rows frame6 ! 4) = 25
   \<and> fvg_context_strength (slice (rows frame6) 0 6) = 25 / 2"
  by (simp add: identify_fvgs_def fvg_scan_def frame6_def mk_candle_def fvg_step_def pip_value_of_def
        FairValueGapAnalyzer_init_def is_bullish_impulse_def is_bearish_impulse_def
        calculate_fvg_strength_def fvg_gap_strength_def fvg_impulse_strength_def
        fvg_context_strength_def relative_volume_strength_def mean_def slice_def
        get_datetime_def age_hours_def Let_def upt_rec [of _ "numeral _"])


section \<open>Strength stays within 0 and 100\<close>

lemma clamp_range: "0 \<le> min 100 (max 0 (x :: real)) \<and> min 100 (max 0 x) \<le> 100"
  by simp

lemma fvg_strength_range:
  "0 \<le> calculate_fvg_strength df g c ctx \<and> calculate_fvg_strength df g c ctx \<le> 100"
  unfolding calculate_fvg_strength_def by (rule clamp_range)

lemma ob_strength_range:
  "0 \<le> calculate_ob_strength df c fut ctx d \<and> calculate_ob_strength df c fut ctx d \<le> 100"
  unfolding calculate_ob_strength_def Let_def by (rule clamp_range)

lemma structure_strength_range:
  "0 \<le> calculate_structure_strength ctx t \<and> calculate_structure_strength ctx t \<le> 100"
  unfolding calculate_structure_strength_def Let_def
  by (cases "length ctx < 2") (simp_all only: if_True if_False clamp_range, simp)

lemma ob_step_strength:
  assumes "ob_step self df pip i = Inr (Some s)"
  shows "0 \<le> strength s \<and> strength s \<le> 100"
proof -
  from assms obtain d where "strength s = calculate_ob_strength df (rows df ! i)
      (slice (rows df) (i + 1) (i + 1 + confirmation_candles self))
      (slice (rows df) (i - 10) (i + 10)) d"
    by (auto simp: ob_step_def Let_def get_datetime_def split: if_splits)
  then show ?thesis using ob_strength_range by simp
qed

lemma mss_signal_strength:
  assumes "mss_signal self pip sp i = Some s"
  shows "0 \<le> strength s \<and> strength s \<le> 100"
proof -
  from assms obtain t where "strength s = calculate_structure_strength (slice sp (i - 3) (i + 1)) t"
    by (auto simp: mss_signal_def Let_def split: if_splits)
  then show ?thesis using structure_strength_range by simp
qed

lemma choch_strength:
  assumes "identify_change_of_character self recent pip = Some s"
  shows "strength s = 70"
  using assms
  by (auto simp: identify_change_of_character_def Let_def split: if_splits option.splits)

lemma fold_append_set:
  "set (fold (\<lambda>i acc. acc @ f i) is acc0) = set acc0 \<union> (\<Union>i \<in> set is. set (f i))"
  by (induction "is" arbitrary: acc0) auto

lemma structure_scan_strength:
  assumes "s \<in> set (structure_scan self pip sp)"
  shows "0 \<le> strength s \<and> strength s \<le> 100"
proof -
  from assms obtain i where "s \<in> set (structure_step self pip sp i)"
    by (auto simp: structure_scan_def fold_append_set split: if_splits)
  then consider "mss_signal self pip sp i = Some s"
    | "identify_change_of_character self (slice sp (i - 4) (i + 1)) pip = Some s"
    by (auto simp: structure_step_def split: option.splits)
  then show ?thesis
  proof cases
    case 1
    then show ?thesis by (rule mss_signal_strength)
  next
    case 2
    then show ?thesis by (simp add: choch_strength)
  qed
qed

lemma equal_level_signal_strength:
  "0 \<le> strength (equal_level_signal k d g) \<and> strength (equal_level_signal k d g) \<le> 100"
  by (simp add: equal_level_signal_def)

text \<open>The four detectors on the forty-one candles of \<^const>\<open>frame41\<close>.\<close>

lemma frame41_swing_points: "identify_swing_points frame41 5 = frame41_swings"
  by (simp add: identify_swing_points_def frame41_def frame41_swings_def mk_candle_def swing_step_def
        slice_def get_datetime_def Let_def upt_rec [of _ "numeral _"])

lemma frame41_length: "length (rows frame41) = 41"
  by (simp add: frame41_def)

lemma frame41_structure:
  "identify_structure_shifts MarketStructureAnalyzer_init frame41 ''EURUSD'' = [frame41_mss1, frame41_mss2]"
  unfolding identify_structure_shifts_def frame41_swing_points frame41_length
  by (simp add: MarketStructureAnalyzer_init_def structure_scan_def structure_step_def
        mss_signal_def identify_change_of_character_def calculate_structure_strength_def
        frame41_swings_def frame41_mss1_def frame41_mss2_def mk_signal_def pip_value_of_def
        non_decreasing_def slice_def Let_def upt_rec [of _ "numeral _"])

lemma frame41_liquidity:
  "identify_liquidity_zones LiquidityAnalyzer_init frame41 ''EURUSD'' = [frame41_liq]"
  unfolding identify_liquidity_zones_def frame41_swing_points frame41_length
  by (simp add: LiquidityAnalyzer_init_def find_equal_levels_def equal_level_signal_def
        frame41_swings_def frame41_liq_def mk_signal_def near_anchor_def
        Let_def upt_rec [of _ "numeral _"] upt_rec [of _ "Suc _"])

lemma frame41_order_blocks:
  "identify_order_blocks OrderBlockAnalyzer_init frame41 ''EURUSD'' = [frame41_ob]"
  by (simp add: identify_order_blocks_def ob_step_def OrderBlockAnalyzer_init_def frame41_def
        frame41_ob_def mk_signal_def mk_candle_def pip_value_of_def is_potential_bullish_ob_def
        is_potential_bearish_ob_def calculate_ob_strength_def calculate_confirmation_move_def
        relative_volume_strength_def mean_def slice_def get_datetime_def
        Let_def upt_rec [of _ "numeral _"])

lemma frame41_fvgs:
  "identify_fvgs FairValueGapAnalyzer_init frame41 ''EURUSD'' = Inr [frame41_fvg]"
  by (simp add: identify_fvgs_def fvg_scan_def frame41_def frame41_fvg_def mk_signal_def
        mk_candle_def fvg_step_def pip_value_of_def
        FairValueGapAnalyzer_init_def is_bullish_impulse_def is_bearish_impulse_def
        calculate_fvg_strength_def fvg_gap_strength_def fvg_impulse_strength_def
        fvg_context_strength_def relative_volume_strength_def mean_def slice_def
        get_datetime_def age_hours_def Let_def upt_rec [of _ "numeral _"])


text \<open>
  Claim C2. The strength of every signal that any of the four detectors emits, on any
  frame and pair and with any parameters, lies between 0 and 100.
\<close>

theorem strength_in_range:
  assumes "s \<in> detector_signals fa oa ma la df pair"
  shows "0 \<le> strength s \<and> strength s \<le> 100"
proof -
  from assms consider
      out where "identify_fvgs fa df pair = Inr out" "s \<in> set out"
    | "s \<in> set (identify_order_blocks oa df pair)"
    | "s \<in> set (identify_structure_shifts ma df pair)"
    | "s \<in> set (identify_liquidity_zones la df pair)"
    by (auto simp: detector_signals_def split: sum.splits)
  then show ?thesis
  proof cases
    case 1
    then have "s \<in> set (fvg_scan fa df pair)"
      by (auto simp: identify_fvgs_def Let_def split: if_splits sum.splits)
    then obtain i where "fvg_step fa df (pip_value_of pair) i = Inr (Some s)"
      by (auto simp: fvg_scan_def set_scan_loop)
    from fvg_step_strength [OF this] show ?thesis
      using fvg_strength_range by simp
  next
    case 2
    then obtain i where "ob_step oa df (pip_value_of pair) i = Inr (Some s)"
      by (auto simp: identify_order_blocks_def set_scan_loop split: if_splits)
    then show ?thesis by (rule ob_step_strength)
  next
    case 3
    then have "s \<in> set (structure_scan ma (pip_value_of pair) (identify_swing_points df 5))"
      by (auto simp: identify_structure_shifts_def split: if_splits)
    then show ?thesis by (rule structure_scan_strength)
  next
    case 4
    then show ?thesis
      using equal_level_signal_strength
      by (auto simp: identify_liquidity_zones_def Let_def split: if_splits)
  qed
qed

theorem strength_in_range_witness:
  "detector_signals FairValueGapAnalyzer_init OrderBlockAnalyzer_init
       MarketStructureAnalyzer_init LiquidityAnalyzer_init frame41 ''EURUSD''
     = {frame41_fvg, frame41_ob, frame41_mss1, frame41_mss2, frame41_liq}
   \<and> 0 \<le> strength frame41_fvg \<and> strength frame41_fvg \<le> 100
   \<and> 0 \<le> strength frame41_ob \<and> strength frame41_ob \<le> 100
   \<and> 0 \<le> strength frame41_mss2 \<and> strength frame41_mss2 \<le> 100
   \<and> 0 \<le> strength frame41_liq \<and> strength frame41_liq \<le> 100"
proof -
  have d: "detector_signals FairValueGapAnalyzer_init OrderBlockAnalyzer_init
       MarketStructureAnalyzer_init LiquidityAnalyzer_init frame41 ''EURUSD''
     = {frame41_fvg, frame41_ob, frame41_mss1, frame41_mss2, frame41_liq}"
    by (auto simp: detector_signals_def frame41_fvgs frame41_order_blocks frame41_structure
          frame41_liquidity)
  have m: "frame41_fvg \<in> {frame41_fvg, frame41_ob, frame41_mss1, frame41_mss2, frame41_liq}"
      "frame41_ob \<in> {frame41_fvg, frame41_ob, frame41_mss1, frame41_mss2, frame41_liq}"
      "frame41_mss2 \<in> {frame41_fvg, frame41_ob, frame41_mss1, frame41_mss2, frame41_liq}"
      "frame41_liq \<in> {frame41_fvg, frame41_ob, frame41_mss1, frame41_mss2, frame41_liq}"
    by simp_all
  from m [folded d] d show ?thesis
    by (intro conjI strength_in_range [THEN conjunct1] strength_in_range [THEN conjunct2])
qed

section \<open>Order blocks\<close>

lemma list_max_Max: "xs \<noteq> [] \<Longrightarrow> list_max xs = Max (set xs)"
  by (induction xs rule: list_max.induct) (auto simp: max_def Max_insert)

lemma list_min_Min: "xs \<noteq> [] \<Longrightarrow> list_min xs = Min (set xs)"
  by (induction xs rule: list_min.induct) (auto simp: min_def Min_insert)

lemma ob_step_bullish:
  "(\<exists>s. ob_step self df pip i = Inr (Some s) \<and> signal_type s = ''OB_Bullish'')
   \<longleftrightarrow> has_datetime df
       \<and> is_potential_bullish_ob self (rows df ! i)
             (slice (rows df) (i + 1) (i + 1 + confirmation_candles self)) pip"
  by (auto simp: ob_step_def Let_def get_datetime_def)

lemma ob_exclusive:
  "is_potential_bullish_ob self c fut pip \<Longrightarrow> \<not> is_potential_bearish_ob self c fut pip"
  by (auto simp: is_potential_bullish_ob_def is_potential_bearish_ob_def Let_def split: if_splits)

lemma ob_step_bearish:
  "(\<exists>s. ob_step self df pip i = Inr (Some s) \<and> signal_type s = ''OB_Bearish'')
   \<longleftrightarrow> has_datetime df
       \<and> is_potential_bearish_ob self (rows df ! i)
             (slice (rows df) (i + 1) (i + 1 + confirmation_candles self)) pip"
  using ob_exclusive [of self "rows df ! i" _ pip]
  by (auto simp: ob_step_def Let_def get_datetime_def)

lemma ob_step_price:
  assumes "ob_step self df pip i = Inr (Some s)"
  shows "(signal_type s = ''OB_Bullish'' \<longrightarrow> price s = c_low (rows df ! i) \<and> direction s = ''bullish'')
       \<and> (signal_type s = ''OB_Bearish'' \<longrightarrow> price s = c_high (rows df ! i) \<and> direction s = ''bearish'')
       \<and> timestamp s = c_datetime (rows df ! i)"
  using assms by (auto simp: ob_step_def Let_def get_datetime_def split: if_splits)

lemma future_length:
  "i < length xs - k \<Longrightarrow> length (slice xs (i + 1) (i + 1 + k)) = k"
  by (auto simp: slice_def)

lemma pip_value_of_pairs:
  "pip_value_of ''USDJPY'' = 1 / 100" "pip_value_of ''EURUSD'' = 1 / 10000"
  by (simp_all add: pip_value_of_def)

text \<open>
  Claim C9, as amended. A series of fewer than ten candles yields no order block. On a
  series of at least ten candles, at every index \<open>i\<close> with
  \<open>5 \<le> i < n - confirmation_candles\<close> a bullish order block is emitted exactly when the
  frame has its \<^verbatim>\<open>datetime\<close> column, candle \<open>i\<close> closes below its open and the highest
  high of the following \<^verbatim>\<open>confirmation_candles\<close> candles exceeds the high of candle \<open>i\<close>
  by at least \<^verbatim>\<open>min_size_pips\<close> pips (5 by default; a pip is 0.01 when the pair contains
  JPY and 0.0001 otherwise); its price is the low of candle \<open>i\<close>. A bearish order block
  is emitted exactly when the candle closes above its open and the lowest low that follows
  is that far below its low; its price is the high of candle \<open>i\<close>. The signals returned
  are those emitted at these indices.
\<close>

theorem order_block_emission:
  "(length (rows df) < 10 \<longrightarrow> identify_order_blocks self df pair = [])
   \<and> (10 \<le> length (rows df) \<and> 5 \<le> i \<and> i < length (rows df) - confirmation_candles self \<longrightarrow>
        ((\<exists>s \<in> set (identify_order_blocks self df pair).
             ob_step self df (pip_value_of pair) i = Inr (Some s) \<and> signal_type s = ''OB_Bullish'')
           \<longleftrightarrow> has_datetime df \<and> 0 < confirmation_candles self
               \<and> c_close (rows df ! i) < c_open (rows df ! i)
               \<and> (Max (c_high ` set (slice (rows df) (i + 1) (i + 1 + confirmation_candles self)))
                     - c_high (rows df ! i)) / pip_value_of pair \<ge> min_size_pips self)
        \<and> ((\<exists>s \<in> set (identify_order_blocks self df pair).
             ob_step self df (pip_value_of pair) i = Inr (Some s) \<and> signal_type s = ''OB_Bearish'')
           \<longleftrightarrow> has_datetime df \<and> 0 < confirmation_candles self
               \<and> c_close (rows df ! i) > c_open (rows df ! i)
               \<and> (c_low (rows df ! i)
                     - Min (c_low ` set (slice (rows df) (i + 1) (i + 1 + confirmation_candles self))))
                   / pip_value_of pair \<ge> min_size_pips self)
        \<and> (\<forall>s. ob_step self df (pip_value_of pair) i = Inr (Some s) \<longrightarrow>
              s \<in> set (identify_order_blocks self df pair)
              \<and> (signal_type s = ''OB_Bullish'' \<longrightarrow> price s = c_low (rows df ! i))
              \<and> (signal_type s = ''OB_Bearish'' \<longrightarrow> price s = c_high (rows df ! i)))
        \<and> length (slice (rows df) (i + 1) (i + 1 + confirmation_candles self))
             = confirmation_candles self)
   \<and> (10 \<le> length (rows df) \<longrightarrow>
        set (identify_order_blocks self df pair)
          = {s. \<exists>j. 5 \<le> j \<and> j < length (rows df) - confirmation_candles self
                   \<and> ob_step self df (pip_value_of pair) j = Inr (Some s)})
   \<and> pip_value_of pair = (if str_contains ''JPY'' pair then 1 / 100 else 1 / 10000)
   \<and> pip_value_of ''USDJPY'' = 1 / 100 \<and> pip_value_of ''EURUSD'' = 1 / 10000
   \<and> min_size_pips OrderBlockAnalyzer_init = 5 \<and> confirmation_candles OrderBlockAnalyzer_init = 2"
proof -
  let ?fut = "slice (rows df) (i + 1) (i + 1 + confirmation_candles self)"
  have short: "length (rows df) < 10 \<longrightarrow> identify_order_blocks self df pair = []"
    by (simp add: identify_order_blocks_def)
  have scan: "10 \<le> length (rows df) \<longrightarrow>
        set (identify_order_blocks self df pair)
          = {s. \<exists>j. 5 \<le> j \<and> j < length (rows df) - confirmation_candles self
                   \<and> ob_step self df (pip_value_of pair) j = Inr (Some s)}"
    by (auto simp: identify_order_blocks_def set_scan_loop)
  have main: "((\<exists>s \<in> set (identify_order_blocks self df pair).
             ob_step self df (pip_value_of pair) i = Inr (Some s) \<and> signal_type s = ''OB_Bullish'')
           \<longleftrightarrow> has_datetime df \<and> 0 < confirmation_candles self
               \<and> c_close (rows df ! i) < c_open (rows df ! i)
               \<and> (Max (c_high ` set ?fut) - c_high (rows df ! i)) / pip_value_of pair
                     \<ge> min_size_pips self)
        \<and> ((\<exists>s \<in> set (identify_order_blocks self df pair).
             ob_step self df (pip_value_of pair) i = Inr (Some s) \<and> signal_type s = ''OB_Bearish'')
           \<longleftrightarrow> has_datetime df \<and> 0 < confirmation_candles self
               \<and> c_close (rows df ! i) > c_open (rows df ! i)
               \<and> (c_low (rows df ! i) - Min (c_low ` set ?fut)) / pip_value_of pair
                     \<ge> min_size_pips self)
        \<and> (\<forall>s. ob_step self df (pip_value_of pair) i = Inr (Some s) \<longrightarrow>
              s \<in> set (identify_order_blocks self df pair)
              \<and> (signal_type s = ''OB_Bullish'' \<longrightarrow> price s = c_low (rows df ! i))
              \<and> (signal_type s = ''OB_Bearish'' \<longrightarrow> price s = c_high (rows df ! i)))
        \<and> length ?fut = confirmation_candles self"
    if range: "10 \<le> length (rows df)" "5 \<le> i" "i < length (rows df) - confirmation_candles self"
  proof -
    have len: "length ?fut = confirmation_candles self"
      using range(3) by (rule future_length)
    have mx: "0 < confirmation_candles self \<Longrightarrow> list_max (map c_high ?fut) = Max (c_high ` set ?fut)"
    proof -
      assume "0 < confirmation_candles self"
      with len have "map c_high ?fut \<noteq> []" by auto
      from list_max_Max [OF this] show ?thesis by simp
    qed
    have mn: "0 < confirmation_candles self \<Longrightarrow> list_min (map c_low ?fut) = Min (c_low ` set ?fut)"
    proof -
      assume "0 < confirmation_candles self"
      with len have "map c_low ?fut \<noteq> []" by auto
      from list_min_Min [OF this] show ?thesis by simp
    qed
    have bull: "is_potential_bullish_ob self (rows df ! i) ?fut (pip_value_of pair)
        \<longleftrightarrow> 0 < confirmation_candles self
             \<and> c_close (rows df ! i) < c_open (rows df ! i)
             \<and> (Max (c_high ` set ?fut) - c_high (rows df ! i)) / pip_value_of pair \<ge> min_size_pips self"
      using len mx by (cases "confirmation_candles self = 0") (auto simp: is_potential_bullish_ob_def Let_def)
    have bear: "is_potential_bearish_ob self (rows df ! i) ?fut (pip_value_of pair)
        \<longleftrightarrow> 0 < confirmation_candles self
             \<and> c_close (rows df ! i) > c_open (rows df ! i)
             \<and> (c_low (rows df ! i) - Min (c_low ` set ?fut)) / pip_value_of pair \<ge> min_size_pips self"
      using len mn by (cases "confirmation_candles self = 0") (auto simp: is_potential_bearish_ob_def Let_def)
    have mem: "\<forall>s. ob_step self df (pip_value_of pair) i = Inr (Some s) \<longrightarrow>
            s \<in> set (identify_order_blocks self df pair)
            \<and> (signal_type s = ''OB_Bullish'' \<longrightarrow> price s = c_low (rows df ! i))
            \<and> (signal_type s = ''OB_Bearish'' \<longrightarrow> price s = c_high (rows df ! i))"
      using range ob_step_price [of self df "pip_value_of pair" i] scan by blast
    have b1: "(\<exists>s \<in> set (identify_order_blocks self df pair).
             ob_step self df (pip_value_of pair) i = Inr (Some s) \<and> signal_type s = ''OB_Bullish'')
          \<longleftrightarrow> (\<exists>s. ob_step self df (pip_value_of pair) i = Inr (Some s) \<and> signal_type s = ''OB_Bullish'')"
      using mem by blast
    have b2: "(\<exists>s \<in> set (identify_order_blocks self df pair).
             ob_step self df (pip_value_of pair) i = Inr (Some s) \<and> signal_type s = ''OB_Bearish'')
          \<longleftrightarrow> (\<exists>s. ob_step self df (pip_value_of pair) i = Inr (Some s) \<and> signal_type s = ''OB_Bearish'')"
      using mem by blast
    show ?thesis
      unfolding b1 b2 ob_step_bullish ob_step_bearish bull bear
      using mem len by blast
  qed
  have pip: "pip_value_of pair = (if str_contains ''JPY'' pair then 1 / 100 else 1 / 10000)"
    by (simp add: pip_value_of_def)
  have dflt: "min_size_pips OrderBlockAnalyzer_init = 5 \<and> confirmation_candles OrderBlockAnalyzer_init = 2"
    by (simp add: OrderBlockAnalyzer_init_def)
  from short main scan pip pip_value_of_pairs dflt show ?thesis by blast
qed

lemma frame41_ob_step:
  "ob_step OrderBlockAnalyzer_init frame41 (pip_value_of ''EURUSD'') 16 = Inr (Some frame41_ob)"
  by (simp add: ob_step_def OrderBlockAnalyzer_init_def frame41_def
        frame41_ob_def mk_signal_def mk_candle_def pip_value_of_def is_potential_bullish_ob_def
        is_potential_bearish_ob_def calculate_ob_strength_def calculate_confirmation_move_def
        relative_volume_strength_def mean_def slice_def get_datetime_def Let_def)

lemma frame9_ob_step:
  "ob_step OrderBlockAnalyzer_init frame9 (pip_value_of ''EURUSD'') 5 = Inr (Some frame9_ob)"
  by (simp add: ob_step_def OrderBlockAnalyzer_init_def frame9_def
        frame9_ob_def mk_signal_def mk_candle_def pip_value_of_def is_potential_bullish_ob_def
        is_potential_bearish_ob_def calculate_ob_strength_def calculate_confirmation_move_def
        relative_volume_strength_def mean_def slice_def get_datetime_def Let_def)

lemma frame10_order_blocks:
  "identify_order_blocks OrderBlockAnalyzer_init frame10 ''EURUSD'' = [frame9_ob]"
  by (simp add: identify_order_blocks_def ob_step_def OrderBlockAnalyzer_init_def frame10_def
        frame9_def frame9_ob_def mk_signal_def mk_candle_def pip_value_of_def
        is_potential_bullish_ob_def is_potential_bearish_ob_def calculate_ob_strength_def
        calculate_confirmation_move_def relative_volume_strength_def mean_def slice_def
        get_datetime_def Let_def upt_rec [of _ "numeral _"])

theorem order_block_emission_witness:
  "length (rows frame9) < 10
   \<and> identify_order_blocks OrderBlockAnalyzer_init frame9 ''EURUSD'' = []
   \<and> 10 \<le> length (rows frame41) \<and> (5 :: nat) \<le> 16
   \<and> 16 < length (rows frame41) - confirmation_candles OrderBlockAnalyzer_init
   \<and> ob_step OrderBlockAnalyzer_init frame41 (pip_value_of ''EURUSD'') 16 = Inr (Some frame41_ob)
   \<and> signal_type frame41_ob = ''OB_Bullish''
   \<and> has_datetime frame41
   \<and> c_close (rows frame41 ! 16) < c_open (rows frame41 ! 16)
   \<and> (Max (c_high ` set (slice (rows frame41) 17 19)) - c_high (rows frame41 ! 16))
        / pip_value_of ''EURUSD'' \<ge> 5
   \<and> frame41_ob \<in> set (identify_order_blocks OrderBlockAnalyzer_init frame41 ''EURUSD'')
   \<and> price frame41_ob = c_low (rows frame41 ! 16)"
proof -
  have s: "length (rows frame9) < 10" by (simp add: frame9_def)
  have l: "10 \<le> length (rows frame41)" "(5 :: nat) \<le> 16"
      "16 < length (rows frame41) - confirmation_candles OrderBlockAnalyzer_init"
    by (simp_all add: frame41_def OrderBlockAnalyzer_init_def)
  have t: "signal_type frame41_ob = ''OB_Bullish''"
    by (simp add: frame41_ob_def mk_signal_def)
  have c: "confirmation_candles OrderBlockAnalyzer_init = 2" "min_size_pips OrderBlockAnalyzer_init = 5"
    by (simp_all add: OrderBlockAnalyzer_init_def)
  from order_block_emission [where df = frame9 and self = OrderBlockAnalyzer_init and pair = "''EURUSD''"] s
  have e: "identify_order_blocks OrderBlockAnalyzer_init frame9 ''EURUSD'' = []" by blast
  note ob = order_block_emission [where df = frame41 and i = 16 and self = OrderBlockAnalyzer_init
      and pair = "''EURUSD''", simplified c]
  from ob l [simplified c] frame41_ob_step
  have m: "frame41_ob \<in> set (identify_order_blocks OrderBlockAnalyzer_init frame41 ''EURUSD'')
     \<and> (signal_type frame41_ob = ''OB_Bullish'' \<longrightarrow> price frame41_ob = c_low (rows frame41 ! 16))"
    by blast
  then have "\<exists>s \<in> set (identify_order_blocks OrderBlockAnalyzer_init frame41 ''EURUSD'').
          ob_step OrderBlockAnalyzer_init frame41 (pip_value_of ''EURUSD'') 16 = Inr (Some s)
          \<and> signal_type s = ''OB_Bullish''"
    using frame41_ob_step t by blast
  with ob l [simplified c]
  have "has_datetime frame41 \<and> c_close (rows frame41 ! 16) < c_open (rows frame41 ! 16)
     \<and> (Max (c_high ` set (slice (rows frame41) 17 19)) - c_high (rows frame41 ! 16))
        / pip_value_of ''EURUSD'' \<ge> 5"
    by simp
  with s e l m t frame41_ob_step show ?thesis by simp
qed

text \<open>
  Claim C9 as stated fails: in the nine candles of \<^const>\<open>frame9\<close> candle 5 closes below
  its open and the next two candles rise 25 pips above its high, index 5 lies in the range
  the loop would visit, and the step there would emit a bullish order block; the detector
  returns nothing because the series has fewer than ten candles. With a tenth candle the
  same order block is returned.
\<close>

theorem order_block_short_series_counterexample:
  "length (rows frame9) = 9
   \<and> (5 :: nat) < 9 - confirmation_candles OrderBlockAnalyzer_init
   \<and> has_datetime frame9
   \<and> c_close (rows frame9 ! 5) < c_open (rows frame9 ! 5)
   \<and> (Max (c_high ` set (slice (rows frame9) 6 8)) - c_high (rows frame9 ! 5))
        / pip_value_of ''EURUSD'' = 25
   \<and> min_size_pips OrderBlockAnalyzer_init = 5
   \<and> ob_step OrderBlockAnalyzer_init frame9 (pip_value_of ''EURUSD'') 5 = Inr (Some frame9_ob)
   \<and> identify_order_blocks OrderBlockAnalyzer_init frame9 ''EURUSD'' = []
   \<and> identify_order_blocks OrderBlockAnalyzer_init frame10 ''EURUSD'' = [frame9_ob]"
  using frame9_ob_step frame10_order_blocks
  by (simp add: identify_order_blocks_def OrderBlockAnalyzer_init_def frame9_def mk_candle_def
        pip_value_of_def slice_def)

section \<open>Market structure shifts\<close>

lemma mss_bullish_iff:
  "(\<exists>s. mss_signal self pip sp i = Some s \<and> signal_type s = ''MSS_Bullish'')
   \<longleftrightarrow> sw_type (sp ! i) = SwingHigh \<and> sw_type (sp ! (i - 2)) = SwingHigh
       \<and> sw_price (sp ! i) > sw_price (sp ! (i - 2))
       \<and> (sw_price (sp ! i) - sw_price (sp ! (i - 2))) / pip \<ge> min_break_pips self"
  by (auto simp: mss_signal_def Let_def)

lemma mss_bearish_iff:
  "(\<exists>s. mss_signal self pip sp i = Some s \<and> signal_type s = ''MSS_Bearish'')
   \<longleftrightarrow> sw_type (sp ! i) = SwingLow \<and> sw_type (sp ! (i - 2)) = SwingLow
       \<and> sw_price (sp ! i) < sw_price (sp ! (i - 2))
       \<and> (sw_price (sp ! (i - 2)) - sw_price (sp ! i)) / pip \<ge> min_break_pips self"
  by (auto simp: mss_signal_def Let_def)

lemma choch_type:
  assumes "identify_change_of_character self recent pip = Some s"
  shows "signal_type s = ''ChoCh_Bullish'' \<or> signal_type s = ''ChoCh_Bearish''"
  using assms
  by (auto simp: identify_change_of_character_def Let_def split: if_splits option.splits)

lemma structure_scan_set:
  "set (structure_scan self pip sp) =
     (if length sp < 4 then {}
      else (\<Union>i \<in> {2 ..< length sp}. set (structure_step self pip sp i)))"
  by (simp add: structure_scan_def fold_append_set)

lemma structure_scan_mss:
  assumes "s \<in> set (structure_scan self pip sp)"
    and "signal_type s = ''MSS_Bullish'' \<or> signal_type s = ''MSS_Bearish''"
  shows "\<exists>i. 2 \<le> i \<and> i < length sp \<and> mss_signal self pip sp i = Some s"
proof -
  from assms(1) obtain i where i: "2 \<le> i" "i < length sp" "s \<in> set (structure_step self pip sp i)"
    by (auto simp: structure_scan_set split: if_splits)
  from i(3) consider "mss_signal self pip sp i = Some s"
    | "identify_change_of_character self (slice sp (i - 4) (i + 1)) pip = Some s"
    by (auto simp: structure_step_def split: option.splits)
  then show ?thesis
  proof cases
    case 1
    with i show ?thesis by blast
  next
    case 2
    from choch_type [OF this] assms(2) show ?thesis by auto
  qed
qed

lemma mss_signal_fields:
  assumes "mss_signal self pip sp i = Some s"
  shows "price s = sw_price (sp ! i) \<and> timestamp s = sw_timestamp (sp ! i)"
  using assms by (auto simp: mss_signal_def Let_def split: if_splits)

lemma structure_shifts_subset:
  "set (identify_structure_shifts self df pair)
     \<subseteq> set (structure_scan self (pip_value_of pair) (identify_swing_points df 5))"
  by (simp add: identify_structure_shifts_def)

lemma scan_bullish_only_when:
  assumes "s \<in> set (structure_scan self pip sp)" and "signal_type s = ''MSS_Bullish''"
  shows "\<exists>i. 2 \<le> i \<and> i < length sp \<and> mss_signal self pip sp i = Some s
           \<and> sw_type (sp ! i) = SwingHigh \<and> sw_type (sp ! (i - 2)) = SwingHigh
           \<and> (sw_price (sp ! i) - sw_price (sp ! (i - 2))) / pip \<ge> min_break_pips self
           \<and> price s = sw_price (sp ! i) \<and> timestamp s = sw_timestamp (sp ! i)"
proof -
  from structure_scan_mss [OF assms(1)] assms(2)
  obtain i where i: "2 \<le> i" "i < length sp" "mss_signal self pip sp i = Some s" by blast
  from i(3) assms(2) mss_bullish_iff [of self pip sp i]
  have "sw_type (sp ! i) = SwingHigh \<and> sw_type (sp ! (i - 2)) = SwingHigh
        \<and> (sw_price (sp ! i) - sw_price (sp ! (i - 2))) / pip \<ge> min_break_pips self"
    by blast
  with i mss_signal_fields [OF i(3)] show ?thesis by blast
qed

lemma scan_bearish_only_when:
  assumes "s \<in> set (structure_scan self pip sp)" and "signal_type s = ''MSS_Bearish''"
  shows "\<exists>i. 2 \<le> i \<and> i < length sp \<and> mss_signal self pip sp i = Some s
           \<and> sw_type (sp ! i) = SwingLow \<and> sw_type (sp ! (i - 2)) = SwingLow
           \<and> (sw_price (sp ! (i - 2)) - sw_price (sp ! i)) / pip \<ge> min_break_pips self
           \<and> price s = sw_price (sp ! i) \<and> timestamp s = sw_timestamp (sp ! i)"
proof -
  from structure_scan_mss [OF assms(1)] assms(2)
  obtain i where i: "2 \<le> i" "i < length sp" "mss_signal self pip sp i = Some s" by blast
  from i(3) assms(2) mss_bearish_iff [of self pip sp i]
  have "sw_type (sp ! i) = SwingLow \<and> sw_type (sp ! (i - 2)) = SwingLow
        \<and> (sw_price (sp ! (i - 2)) - sw_price (sp ! i)) / pip \<ge> min_break_pips self"
    by blast
  with i mss_signal_fields [OF i(3)] show ?thesis by blast
qed

text \<open>
  Claim C3, as amended. For every swing-point sequence, a bullish structure shift is
  emitted at swing index \<open>i\<close> only when the swings \<open>i\<close> and \<open>i - 2\<close> are both highs and the
  price of swing \<open>i\<close> exceeds that of swing \<open>i - 2\<close> by at least \<^verbatim>\<open>min_break_pips\<close> pips
  (2 by default; a pip is 0.01 when the pair contains JPY and 0.0001 otherwise); the swing
  between them may be of either type. The bearish shift is the same on lows. This holds
  for the loop on any list of swing points and for the signals the detector returns on
  any frame.
\<close>

theorem mss_emission:
  "(\<forall>s \<in> set (structure_scan self (pip_value_of pair) sp). signal_type s = ''MSS_Bullish'' \<longrightarrow>
      (\<exists>i. 2 \<le> i \<and> i < length sp \<and> mss_signal self (pip_value_of pair) sp i = Some s
           \<and> sw_type (sp ! i) = SwingHigh \<and> sw_type (sp ! (i - 2)) = SwingHigh
           \<and> (sw_price (sp ! i) - sw_price (sp ! (i - 2))) / pip_value_of pair \<ge> min_break_pips self
           \<and> price s = sw_price (sp ! i) \<and> timestamp s = sw_timestamp (sp ! i)))
   \<and> (\<forall>s \<in> set (structure_scan self (pip_value_of pair) sp). signal_type s = ''MSS_Bearish'' \<longrightarrow>
      (\<exists>i. 2 \<le> i \<and> i < length sp \<and> mss_signal self (pip_value_of pair) sp i = Some s
           \<and> sw_type (sp ! i) = SwingLow \<and> sw_type (sp ! (i - 2)) = SwingLow
           \<and> (sw_price (sp ! (i - 2)) - sw_price (sp ! i)) / pip_value_of pair \<ge> min_break_pips self
           \<and> price s = sw_price (sp ! i) \<and> timestamp s = sw_timestamp (sp ! i)))
   \<and> (\<forall>s \<in> set (identify_structure_shifts self df pair). signal_type s = ''MSS_Bullish'' \<longrightarrow>
      (\<exists>i. 2 \<le> i \<and> i < length (identify_swing_points df 5)
           \<and> sw_type (identify_swing_points df 5 ! i) = SwingHigh
           \<and> sw_type (identify_swing_points df 5 ! (i - 2)) = SwingHigh
           \<and> (sw_price (identify_swing_points df 5 ! i)
                 - sw_price (identify_swing_points df 5 ! (i - 2))) / pip_value_of pair
                \<ge> min_break_pips self
           \<and> price s = sw_price (identify_swing_points df 5 ! i)
           \<and> timestamp s = sw_timestamp (identify_swing_points df 5 ! i)))
   \<and> (\<forall>s \<in> set (identify_structure_shifts self df pair). signal_type s = ''MSS_Bearish'' \<longrightarrow>
      (\<exists>i. 2 \<le> i \<and> i < length (identify_swing_points df 5)
           \<and> sw_type (identify_swing_points df 5 ! i) = SwingLow
           \<and> sw_type (identify_swing_points df 5 ! (i - 2)) = SwingLow
           \<and> (sw_price (identify_swing_points df 5 ! (i - 2))
                 - sw_price (identify_swing_points df 5 ! i)) / pip_value_of pair
                \<ge> min_break_pips self
           \<and> price s = sw_price (identify_swing_points df 5 ! i)
           \<and> timestamp s = sw_timestamp (identify_swing_points df 5 ! i)))
   \<and> pip_value_of pair = (if str_contains ''JPY'' pair then 1 / 100 else 1 / 10000)
   \<and> pip_value_of ''USDJPY'' = 1 / 100 \<and> pip_value_of ''EURUSD'' = 1 / 10000
   \<and> min_break_pips MarketStructureAnalyzer_init = 2"
proof (intro conjI ballI impI)
  fix s assume "s \<in> set (structure_scan self (pip_value_of pair) sp)" "signal_type s = ''MSS_Bullish''"
  then show "\<exists>i. 2 \<le> i \<and> i < length sp \<and> mss_signal self (pip_value_of pair) sp i = Some s
           \<and> sw_type (sp ! i) = SwingHigh \<and> sw_type (sp ! (i - 2)) = SwingHigh
           \<and> (sw_price (sp ! i) - sw_price (sp ! (i - 2))) / pip_value_of pair \<ge> min_break_pips self
           \<and> price s = sw_price (sp ! i) \<and> timestamp s = sw_timestamp (sp ! i)"
    by (rule scan_bullish_only_when)
next
  fix s assume "s \<in> set (structure_scan self (pip_value_of pair) sp)" "signal_type s = ''MSS_Bearish''"
  then show "\<exists>i. 2 \<le> i \<and> i < length sp \<and> mss_signal self (pip_value_of pair) sp i = Some s
           \<and> sw_type (sp ! i) = SwingLow \<and> sw_type (sp ! (i - 2)) = SwingLow
           \<and> (sw_price (sp ! (i - 2)) - sw_price (sp ! i)) / pip_value_of pair \<ge> min_break_pips self
           \<and> price s = sw_price (sp ! i) \<and> timestamp s = sw_timestamp (sp ! i)"
    by (rule scan_bearish_only_when)
next
  fix s assume "s \<in> set (identify_structure_shifts self df pair)" and t: "signal_type s = ''MSS_Bullish''"
  then have "s \<in> set (structure_scan self (pip_value_of pair) (identify_swing_points df 5))"
    using structure_shifts_subset by blast
  from scan_bullish_only_when [OF this t]
  show "\<exists>i. 2 \<le> i \<and> i < length (identify_swing_points df 5)
           \<and> sw_type (identify_swing_points df 5 ! i) = SwingHigh
           \<and> sw_type (identify_swing_points df 5 ! (i - 2)) = SwingHigh
           \<and> (sw_price (identify_swing_points df 5 ! i)
                 - sw_price (identify_swing_points df 5 ! (i - 2))) / pip_value_of pair
                \<ge> min_break_pips self
           \<and> price s = sw_price (identify_swing_points df 5 ! i)
           \<and> timestamp s = sw_timestamp (identify_swing_points df 5 ! i)"
    by blast
next
  fix s assume "s \<in> set (identify_structure_shifts self df pair)" and t: "signal_type s = ''MSS_Bearish''"
  then have "s \<in> set (structure_scan self (pip_value_of pair) (identify_swing_points df 5))"
    using structure_shifts_subset by blast
  from scan_bearish_only_when [OF this t]
  show "\<exists>i. 2 \<le> i \<and> i < length (identify_swing_points df 5)
           \<and> sw_type (identify_swing_points df 5 ! i) = SwingLow
           \<and> sw_type (identify_swing_points df 5 ! (i - 2)) = SwingLow
           \<and> (sw_price (identify_swing_points df 5 ! (i - 2))
                 - sw_price (identify_swing_points df 5 ! i)) / pip_value_of pair
                \<ge> min_break_pips self
           \<and> price s = sw_price (identify_swing_points df 5 ! i)
           \<and> timestamp s = sw_timestamp (identify_swing_points df 5 ! i)"
    by blast
qed (simp_all add: pip_value_of_def MarketStructureAnalyzer_init_def)

lemma frame41_mss_step:
  "mss_signal MarketStructureAnalyzer_init (1 / 10000) frame41_swings 2 = Some frame41_mss1"
  by (simp add: MarketStructureAnalyzer_init_def mss_signal_def calculate_structure_strength_def
        frame41_swings_def frame41_mss1_def mk_signal_def non_decreasing_def slice_def Let_def)

theorem mss_emission_witness:
  "frame41_mss1 \<in> set (identify_structure_shifts MarketStructureAnalyzer_init frame41 ''EURUSD'')
   \<and> signal_type frame41_mss1 = ''MSS_Bullish''
   \<and> identify_swing_points frame41 5 = frame41_swings
   \<and> sw_type (frame41_swings ! 2) = SwingHigh \<and> sw_type (frame41_swings ! 0) = SwingHigh
   \<and> (sw_price (frame41_swings ! 2) - sw_price (frame41_swings ! 0)) / pip_value_of ''EURUSD''
        \<ge> min_break_pips MarketStructureAnalyzer_init"
proof -
  have t: "signal_type frame41_mss1 = ''MSS_Bullish''"
    by (simp add: frame41_mss1_def mk_signal_def)
  have m: "frame41_mss1 \<in> set (identify_structure_shifts MarketStructureAnalyzer_init frame41 ''EURUSD'')"
    by (simp add: frame41_structure)
  note e = mss_emission [where self = MarketStructureAnalyzer_init and pair = "''EURUSD''"
      and df = frame41, unfolded frame41_swing_points]
  from e m t obtain i where i: "2 \<le> i" "i < length frame41_swings"
      "sw_type (frame41_swings ! i) = SwingHigh" "sw_type (frame41_swings ! (i - 2)) = SwingHigh"
      "(sw_price (frame41_swings ! i) - sw_price (frame41_swings ! (i - 2))) / pip_value_of ''EURUSD''
          \<ge> min_break_pips MarketStructureAnalyzer_init"
      "price frame41_mss1 = sw_price (frame41_swings ! i)"
    by blast
  from i(1,2) have "i = 2 \<or> i = 3" by (auto simp: frame41_swings_def)
  moreover have "price frame41_mss1 \<noteq> sw_price (frame41_swings ! 3)"
    by (simp add: frame41_mss1_def mk_signal_def frame41_swings_def)
  ultimately have "i = 2" using i(6) by auto
  with i(3,4,5) t m frame41_swing_points show ?thesis by simp
qed

text \<open>
  Claim C3 as stated fails: the swing points of \<^const>\<open>frame41\<close> are four highs in a row,
  and a bullish shift is emitted at swing 2 although the swing between 0 and 2 is a high,
  not a low.
\<close>

theorem mss_alternation_counterexample:
  "identify_swing_points frame41 5 = frame41_swings
   \<and> identify_structure_shifts MarketStructureAnalyzer_init frame41 ''EURUSD''
        = [frame41_mss1, frame41_mss2]
   \<and> mss_signal MarketStructureAnalyzer_init (pip_value_of ''EURUSD'') frame41_swings 2
        = Some frame41_mss1
   \<and> signal_type frame41_mss1 = ''MSS_Bullish''
   \<and> sw_type (frame41_swings ! 1) = SwingHigh
   \<and> sw_type (frame41_swings ! 1) \<noteq> SwingLow"
  using frame41_swing_points frame41_structure frame41_mss_step
  by (simp add: pip_value_of_def frame41_mss1_def mk_signal_def frame41_swings_def)

section \<open>Confluence groups\<close>

lemma confluence_loop_eq:
  "n = length sigs \<Longrightarrow> k \<le> n \<Longrightarrow>
   fst (confluence_loop tol sigs [k ..< n] (groups, used)) =
     groups @ map make_confluence
       (filter (\<lambda>g. length g \<ge> 2) (greedy_groups price tol (unused sigs [k ..< n] used)))"
proof (induction "n - k" arbitrary: k groups used)
  case 0
  then show ?case by (simp add: unused_def)
next
  case (Suc m)
  then have kn: "k < n" and m: "m = n - Suc k" and le: "Suc k \<le> n" by auto
  have upt: "[k ..< n] = k # [Suc k ..< n]" using kn by (simp add: upt_conv_Cons)
  show ?case
  proof (cases "k \<in> used")
    case True
    then show ?thesis using Suc.hyps(1) [OF m Suc.prems(1) le, of groups used]
      by (simp add: upt unused_def)
  next
    case False
    have nk: "k \<notin> set [Suc k ..< n]" by simp
    have u0: "unused sigs [Suc k ..< n] (insert k used) = unused sigs [Suc k ..< n] used"
      unfolding unused_def by (rule arg_cong [where f = "map _"]) (rule filter_cong, auto)
    have u1: "unused sigs [k ..< n] used = sigs ! k # unused sigs [Suc k ..< n] used"
      using False by (simp add: upt unused_def)
    let ?near = "\<lambda>y. near_anchor tol (price (sigs ! k)) (price y)"
    let ?rest = "unused sigs [Suc k ..< n] used"
    let ?used' = "insert k used \<union> {j \<in> set [Suc k ..< n]. j \<notin> insert k used \<and> ?near (sigs ! j)}"
    have cn: "collect_near price tol sigs k [Suc k ..< length sigs] ([sigs ! k], insert k used)
          = (sigs ! k # filter ?near ?rest, ?used')"
      using u0 by (simp add: collect_near_eq Suc.prems(1))
    have u2: "unused sigs [Suc k ..< n] ?used' = filter (\<lambda>y. \<not> ?near y) ?rest"
      by (rule unused_after [OF nk])
    have step: "fst (confluence_loop tol sigs [k ..< n] (groups, used)) =
       fst (confluence_loop tol sigs [Suc k ..< n]
         (if length (sigs ! k # filter ?near ?rest) \<ge> 2
          then groups @ [make_confluence (sigs ! k # filter ?near ?rest)] else groups, ?used'))"
      unfolding upt using False cn by simp
    show ?thesis
      unfolding step u1 Suc.hyps(1) [OF m Suc.prems(1) le] u2
      by simp
  qed
qed

lemma confluence_refines:
  "get_confluence_signals sigs tol =
     sort_desc combined_strength
       (map make_confluence (filter (\<lambda>g. length g \<ge> 2) (greedy_groups price tol sigs)))"
proof -
  have "unused sigs [0 ..< length sigs] {} = sigs"
    by (simp add: unused_def map_nth)
  then show ?thesis
    using confluence_loop_eq [of "length sigs" sigs 0 tol "[]" "{}"]
    by (simp add: get_confluence_signals_def)
qed

lemma sort_desc_set: "set (sort_desc f xs) = set xs"
  by (simp add: sort_desc_def)

lemma sort_desc_sorted: "sorted_wrt (\<lambda>a b. f a \<ge> f b) (sort_desc f xs)"
proof -
  have "sorted (map f (sort_key f (rev xs)))" by simp
  then have "sorted_wrt (\<lambda>a b. f a \<le> f b) (sort_key f (rev xs))"
    by (simp add: sorted_wrt_map)
  then have "sorted_wrt (\<lambda>a b. f b \<le> f a) (rev (sort_key f (rev xs)))"
    by (simp add: sorted_wrt_rev)
  then show ?thesis by (simp add: sort_desc_def)
qed

lemma make_confluence_fields:
  "cf_signals (make_confluence g) = g"
  "signal_count (make_confluence g) = length g"
  "combined_strength (make_confluence g) = min 100 (sum_list (map strength g) / real (length g) * (12 / 10))"
  "dominant_direction (make_confluence g) =
     (if length (filter (\<lambda>s. direction s = ''bullish'') g) > length (filter (\<lambda>s. direction s = ''bearish'') g)
      then ''bullish'' else ''bearish'')"
  by (simp_all add: make_confluence_def Let_def)

text \<open>
  Claim C6, as amended. \<^verbatim>\<open>get_confluence_signals\<close> groups greedily: the first signal not
  yet grouped is the anchor, and every later signal not yet grouped whose price differs
  from the anchor's by at most the tolerance times the anchor's price joins it; a signal an
  earlier anchor has taken is not grouped again. Every group of two or more signals becomes
  a confluence with \<^verbatim>\<open>combined_strength = min(100, mean * 1.2)\<close> and the direction of the
  majority, a tie going to bearish, and the list is sorted by combined strength, highest
  first. A list of just two signals within tolerance gives one group that holds both.
\<close>

theorem confluence_groups:
  "get_confluence_signals sigs tol =
     sort_desc combined_strength
       (map make_confluence (filter (\<lambda>g. length g \<ge> 2) (greedy_groups price tol sigs)))
   \<and> (\<forall>c \<in> set (get_confluence_signals sigs tol).
         signal_count c = length (cf_signals c) \<and> length (cf_signals c) \<ge> 2
         \<and> combined_strength c =
             min 100 (sum_list (map strength (cf_signals c)) / real (length (cf_signals c)) * (12 / 10))
         \<and> dominant_direction c =
             (if length (filter (\<lambda>s. direction s = ''bullish'') (cf_signals c))
                   > length (filter (\<lambda>s. direction s = ''bearish'') (cf_signals c))
              then ''bullish'' else ''bearish''))
   \<and> sorted_wrt (\<lambda>a b. combined_strength a \<ge> combined_strength b) (get_confluence_signals sigs tol)
   \<and> (\<bar>price a - price b\<bar> < price a * tol \<longrightarrow>
        get_confluence_signals [a, b] tol = [make_confluence [a, b]])"
proof (intro conjI ballI impI)
  show r: "get_confluence_signals sigs tol =
     sort_desc combined_strength
       (map make_confluence (filter (\<lambda>g. length g \<ge> 2) (greedy_groups price tol sigs)))"
    by (rule confluence_refines)
  show "sorted_wrt (\<lambda>a b. combined_strength a \<ge> combined_strength b) (get_confluence_signals sigs tol)"
    unfolding r by (rule sort_desc_sorted)
  {
    fix c assume "c \<in> set (get_confluence_signals sigs tol)"
    then obtain g where g: "c = make_confluence g" "2 \<le> length g"
      unfolding r sort_desc_set by auto
    show "signal_count c = length (cf_signals c)" "length (cf_signals c) \<ge> 2"
      "combined_strength c =
             min 100 (sum_list (map strength (cf_signals c)) / real (length (cf_signals c)) * (12 / 10))"
      "dominant_direction c =
             (if length (filter (\<lambda>s. direction s = ''bullish'') (cf_signals c))
                   > length (filter (\<lambda>s. direction s = ''bearish'') (cf_signals c))
              then ''bullish'' else ''bearish'')"
      using g by (simp_all only: make_confluence_fields)
  }
  assume "\<bar>price a - price b\<bar> < price a * tol"
  then show "get_confluence_signals [a, b] tol = [make_confluence [a, b]]"
    by (simp add: confluence_refines near_anchor_def sort_desc_def)
qed

theorem confluence_groups_witness:
  "\<bar>price (apart3 ! 0) - price (apart3 ! 2)\<bar> < price (apart3 ! 0) * (1 / 1000)
   \<and> get_confluence_signals [apart3 ! 0, apart3 ! 2] (1 / 1000)
        = [make_confluence [apart3 ! 0, apart3 ! 2]]
   \<and> combined_strength (make_confluence [apart3 ! 0, apart3 ! 2]) = 90
   \<and> dominant_direction (make_confluence [apart3 ! 0, apart3 ! 2]) = ''bullish''"
proof -
  have c: "\<bar>price (apart3 ! 0) - price (apart3 ! 2)\<bar> < price (apart3 ! 0) * (1 / 1000)"
    by (simp add: apart3_def mk_signal_def)
  from confluence_groups [of "[]" "1 / 1000" "apart3 ! 0" "apart3 ! 2"] c
  have "get_confluence_signals [apart3 ! 0, apart3 ! 2] (1 / 1000)
        = [make_confluence [apart3 ! 0, apart3 ! 2]]"
    by blast
  then show ?thesis using c
    by (simp add: make_confluence_def apart3_def mk_signal_def Let_def)
qed

text \<open>
  Claim C6 as stated fails: in \<^const>\<open>apart3\<close> the second signal is an anchor and the
  third lies within the tolerance of its price, yet the third is grouped with the first
  (which it also matches) and no group holds the second and the third together.
\<close>

theorem confluence_pairing_counterexample:
  "get_confluence_signals apart3 (1 / 1000) = [make_confluence [apart3 ! 0, apart3 ! 2]]
   \<and> \<bar>price (apart3 ! 1) - price (apart3 ! 2)\<bar> < price (apart3 ! 1) * (1 / 1000)
   \<and> apart3 ! 1 \<notin> set (cf_signals (make_confluence [apart3 ! 0, apart3 ! 2]))
   \<and> \<not> \<bar>price (apart3 ! 0) - price (apart3 ! 1)\<bar> \<le> price (apart3 ! 0) * (1 / 1000)"
  by (simp add: get_confluence_signals_def apart3_def mk_signal_def near_anchor_def
        make_confluence_def sort_desc_def Let_def upt_rec [of _ "numeral _"] upt_rec [of _ "Suc _"])


end
